theory Spec2Isabelle
  imports Complex_Main
begin

section \<open>Risk management (src/risk_management.py, class RiskManager)\<close>

text \<open>
  Python floats are modelled as \<^typ>\<open>real\<close> (rounding is not modelled), Python ints as
  \<^typ>\<open>int\<close>. A dictionary read \<^verbatim>\<open>d.get(key, default)\<close> is a field of option type
  (\<open>None\<close>: the key is absent) read through \<open>dict_get\<close>. A calendar date is the number
  of its day. Every call of \<^verbatim>\<open>datetime.now().date()\<close> is a separate clock read and a
  separate argument of the operation that makes it. Logging is left out.
\<close>

type_synonym date = int

definition dict_get :: "'a option \<Rightarrow> 'a \<Rightarrow> 'a" where
  "dict_get v d = (case v of None \<Rightarrow> d | Some x \<Rightarrow> x)"

record config =
  MAX_POSITION_SIZE :: "real option"
  RISK_PERCENTAGE :: "real option"
  MAX_DAILY_SIGNALS :: "int option"

record daily_stats =
  trades_taken :: int
  signals_sent :: int
  max_trades_reached :: bool
  win_rate :: real
  profit_loss :: real
  last_reset :: date

text \<open>The \<^verbatim>\<open>technical_indicators\<close> entry of a signal: the keys the risk manager reads
  (the entries \<^verbatim>\<open>Stoch_K\<close>, \<^verbatim>\<open>Stoch_D\<close> and \<^verbatim>\<open>BB_Position\<close>, which nothing reads, are left
  out).\<close>

record technical_indicators_dict =
  RSI :: "real option"
  MACD :: "real option"
  MACD_Signal :: "real option"
  ADX :: "real option"

text \<open>The signal dictionary of technical_analysis.py, which the risk manager assesses; the
  entry \<^verbatim>\<open>signal\<close> is the field \<open>signal_type\<close>, the entry \<^verbatim>\<open>patterns\<close> the list of the
  pattern names that are set. The entries \<^verbatim>\<open>timeframe\<close>, \<^verbatim>\<open>trend\<close>, \<^verbatim>\<open>sentiment\<close> and
  \<^verbatim>\<open>timestamp\<close>, which no rule reads, are left out.\<close>

record signal_dict =
  symbol :: "string option"
  signal_type :: "string option"
  confidence :: "real option"
  current_price :: "real option"
  entry_price :: "real option"
  stop_loss :: "real option"
  take_profit :: "real option"
  reasons :: "string list option"
  patterns :: "string list option"
  technical_indicators :: "technical_indicators_dict option"

record risk_assessment =
  risk_level :: string
  score :: int
  max_loss :: real
  risk_reward_ratio :: real
  warnings :: "string list"
  recommendation :: string
  position_size :: real

text \<open>\<^verbatim>\<open>RiskManager.__init__\<close>: the statistics of a fresh manager, created on day \<open>now\<close>.
  \<^verbatim>\<open>reset_daily_stats\<close> assigns the same dictionary.\<close>

definition reset_daily_stats :: "date \<Rightarrow> daily_stats" where
  "reset_daily_stats now =
     \<lparr>trades_taken = 0, signals_sent = 0, max_trades_reached = False,
      win_rate = 0, profit_loss = 0, last_reset = now\<rparr>"

definition calculate_position_size :: "config \<Rightarrow> real \<Rightarrow> real \<Rightarrow> real \<Rightarrow> real" where
  "calculate_position_size cfg account_balance risk_percentage stop_loss_distance =
     (let risk_amount = account_balance * (risk_percentage / 100);
          position_size = (if stop_loss_distance > 0 then risk_amount / stop_loss_distance else 0);
          max_position = dict_get (MAX_POSITION_SIZE cfg) 100
      in min position_size max_position)"

text \<open>\<^verbatim>\<open>check_daily_limits\<close>: \<open>now1\<close> is the clock read of the function itself, \<open>now2\<close> the
  one made inside \<^verbatim>\<open>reset_daily_stats\<close> when it is called.\<close>

definition check_daily_limits :: "config \<Rightarrow> date \<Rightarrow> date \<Rightarrow> daily_stats \<Rightarrow> bool \<times> daily_stats" where
  "check_daily_limits cfg now1 now2 st =
     (let st1 = (if last_reset st \<noteq> now1 then reset_daily_stats now2 else st);
          max_signals = dict_get (MAX_DAILY_SIGNALS cfg) 50
      in (signals_sent st1 \<ge> max_signals, st1))"

text \<open>\<^verbatim>\<open>update_daily_stats\<close>: a trade result is a dictionary (an association list) or
  \<^verbatim>\<open>None\<close>; it is truthy when it is a non-empty dictionary.\<close>

definition update_daily_stats ::
  "date \<Rightarrow> date \<Rightarrow> bool \<Rightarrow> (string \<times> real) list option \<Rightarrow> daily_stats \<Rightarrow> daily_stats" where
  "update_daily_stats now1 now2 signal_sent trade_result st =
     (let st1 = (if last_reset st \<noteq> now1 then reset_daily_stats now2 else st);
          st2 = (if signal_sent then st1\<lparr>signals_sent := signals_sent st1 + 1\<rparr> else st1)
      in case trade_result of
           None \<Rightarrow> st2
         | Some [] \<Rightarrow> st2
         | Some (kv # kvs) \<Rightarrow>
             (let st3 = st2\<lparr>trades_taken := trades_taken st2 + 1\<rparr>
              in case map_of (kv # kvs) ''profit_loss'' of
                   None \<Rightarrow> st3
                 | Some pl \<Rightarrow> st3\<lparr>profit_loss := profit_loss st3 + pl\<rparr>))"

text \<open>
  \<^verbatim>\<open>assess_trade_risk\<close>. The local variables \<^verbatim>\<open>risk_score\<close> and the warnings list are
  threaded through the five scoring sections in the order of the source. With numeric
  entries no statement of the \<^verbatim>\<open>try\<close> block can raise (both divisions are guarded or
  come after the zero test), so the \<^verbatim>\<open>except\<close> branch, which answers \<^verbatim>\<open>ERROR\<close>, is not
  reached by a value of \<^typ>\<open>signal_dict\<close>. The function returns the assessment and the
  daily statistics, which \<^verbatim>\<open>check_daily_limits\<close> may have reset.
\<close>

definition rr_section :: "real \<Rightarrow> int \<times> string list \<Rightarrow> int \<times> string list" where
  "rr_section rr = (\<lambda>(risk_score, ws).
     if rr < 1 then (risk_score + 3, ws @ [''Poor risk-reward ratio''])
     else if rr < 1.5 then (risk_score + 1, ws)
     else (risk_score - 1, ws))"

definition stop_section :: "real \<Rightarrow> int \<times> string list \<Rightarrow> int \<times> string list" where
  "stop_section risk_percent = (\<lambda>(risk_score, ws).
     if risk_percent > 5 then (risk_score + 2, ws @ [''High stop loss percentage''])
     else if risk_percent < 1 then (risk_score + 1, ws @ [''Very tight stop loss''])
     else (risk_score, ws))"

definition confidence_section :: "real \<Rightarrow> int \<times> string list \<Rightarrow> int \<times> string list" where
  "confidence_section conf = (\<lambda>(risk_score, ws).
     if conf < 30 then (risk_score + 2, ws @ [''Low signal confidence''])
     else if conf > 70 then (risk_score - 2, ws)
     else (risk_score, ws))"

text \<open>The empty dictionary, the default of \<^verbatim>\<open>signal.get('technical_indicators', {})\<close>.\<close>

definition no_indicators :: technical_indicators_dict where
  "no_indicators = \<lparr>RSI = None, MACD = None, MACD_Signal = None, ADX = None\<rparr>"

definition alignment_score :: "signal_dict \<Rightarrow> int" where
  "alignment_score sg =
     (let indicators = dict_get (technical_indicators sg) no_indicators;
          rsi = dict_get (RSI indicators) 50;
          a1 = (if (signal_type sg = Some ''BUY'' \<and> 30 < rsi \<and> rsi < 70) \<or>
                   (signal_type sg = Some ''SELL'' \<and> 30 < rsi \<and> rsi < 70)
                then 1 else -1);
          macd = dict_get (MACD indicators) 0;
          macd_signal = dict_get (MACD_Signal indicators) 0;
          a2 = (if (signal_type sg = Some ''BUY'' \<and> macd > macd_signal) \<or>
                   (signal_type sg = Some ''SELL'' \<and> macd < macd_signal)
                then 1 else -1)
      in a1 + a2)"

definition volatility_section :: "signal_dict \<Rightarrow> int \<times> string list \<Rightarrow> int \<times> string list" where
  "volatility_section sg = (\<lambda>(risk_score, ws).
     let indicators = dict_get (technical_indicators sg) no_indicators;
         adx = dict_get (ADX indicators) 0
     in if adx > 30 then (risk_score + 1, ws @ [''High market volatility''])
        else (risk_score, ws))"

definition risk_level_of :: "int \<Rightarrow> string" where
  "risk_level_of risk_score =
     (if risk_score \<le> -2 then ''VERY_LOW''
      else if risk_score \<le> 0 then ''LOW''
      else if risk_score \<le> 2 then ''MEDIUM''
      else if risk_score \<le> 4 then ''HIGH''
      else ''VERY_HIGH'')"

definition initial_assessment :: risk_assessment where
  "initial_assessment =
     \<lparr>risk_level = ''LOW'', score = 0, max_loss = 0, risk_reward_ratio = 0,
      warnings = [], recommendation = ''APPROVED'', position_size = 0\<rparr>"

definition assess_trade_risk ::
  "config \<Rightarrow> date \<Rightarrow> date \<Rightarrow> daily_stats \<Rightarrow> signal_dict \<Rightarrow> real \<Rightarrow> risk_assessment \<times> daily_stats" where
  "assess_trade_risk cfg now1 now2 st sg account_balance =
     (let price = dict_get (current_price sg) 0;
          stop = dict_get (stop_loss sg) 0;
          target = dict_get (take_profit sg) 0;
          conf = dict_get (confidence sg) 0
      in if price = 0 \<or> stop = 0 then
           (initial_assessment\<lparr>recommendation := ''REJECTED'',
                               warnings := [''Invalid price data'']\<rparr>, st)
         else
           (let stop_distance = \<bar>price - stop\<bar>;
                risk_percent = (stop_distance / price) * 100;
                profit_distance = (if signal_type sg = Some ''BUY'' then target - price
                                   else price - target);
                rr = (if stop_distance > 0 then profit_distance / stop_distance else 0);
                (s1, w1) = rr_section rr (0, []);
                (s2, w2) = stop_section risk_percent (s1, w1);
                (s3, w3) = confidence_section conf (s2, w2);
                (s4, w4) = volatility_section sg (s3 + alignment_score sg, w3);
                size = calculate_position_size cfg account_balance
                         (dict_get (RISK_PERCENTAGE cfg) 2) stop_distance;
                rec1 = (if s4 > 4 \<or> conf < 20 then ''REJECTED''
                        else if s4 > 2 then ''CAUTION'' else ''APPROVED'');
                (limit, st1) = check_daily_limits cfg now1 now2 st
            in (\<lparr>risk_level = risk_level_of s4, score = s4, max_loss = stop_distance,
                 risk_reward_ratio = rr,
                 warnings = (if limit then w4 @ [''Daily trading limit reached''] else w4),
                 recommendation = (if limit then ''REJECTED'' else rec1),
                 position_size = size\<rparr>, st1)))"

text \<open>The configuration with no key set: every read takes its default.\<close>

definition default_config :: config where
  "default_config =
     \<lparr>MAX_POSITION_SIZE = None, RISK_PERCENTAGE = None, MAX_DAILY_SIGNALS = None\<rparr>"

text \<open>The empty signal dictionary.\<close>

definition empty_signal :: signal_dict where
  "empty_signal =
     \<lparr>symbol = None, signal_type = None, confidence = None, current_price = None,
      entry_price = None, stop_loss = None, take_profit = None, reasons = None,
      patterns = None, technical_indicators = None\<rparr>"

text \<open>A BUY signal whose stop-loss is its entry price, and no indicators.\<close>

definition flat_stop_signal :: signal_dict where
  "flat_stop_signal = empty_signal\<lparr>signal_type := Some ''BUY'', confidence := Some 50,
      current_price := Some 1.1, stop_loss := Some 1.1, take_profit := Some 1.2\<rparr>"

text \<open>\<open>n\<close> successive calls \<^verbatim>\<open>update_daily_stats(signal_sent=True)\<close>, all on day \<open>d\<close>.\<close>

definition record_signals :: "nat \<Rightarrow> date \<Rightarrow> daily_stats \<Rightarrow> daily_stats" where
  "record_signals n d st = ((update_daily_stats d d True None) ^^ n) st"

definition two_signal_config :: config where
  "two_signal_config = default_config\<lparr>MAX_DAILY_SIGNALS := Some 2\<rparr>"

section \<open>Floating-point values with the IEEE special cases\<close>

text \<open>
  The signal generator of the enhanced bot works on pandas series of float64, where a
  division by zero raises nothing: it produces an infinity or a NaN, and every
  comparison with a NaN is false. These special cases decide what the RSI is when the
  average loss is zero, so the values of that bot are modelled by the type \<open>fl\<close>: a real
  number (\<open>Fin 0\<close> is +0.0), the negative zero, the two infinities, or NaN. Rounding and
  overflow of finite results are not modelled.
\<close>

datatype fl = Fin real | NegZero | PInf | NInf | NaN

definition fl_sign :: "fl \<Rightarrow> bool" where
  "fl_sign x = (case x of Fin r \<Rightarrow> r < 0 | NegZero \<Rightarrow> True | PInf \<Rightarrow> False
                | NInf \<Rightarrow> True | NaN \<Rightarrow> False)"

definition fl_val :: "fl \<Rightarrow> real" where
  "fl_val x = (case x of Fin r \<Rightarrow> r | _ \<Rightarrow> 0)"

definition fl_is_zero :: "fl \<Rightarrow> bool" where
  "fl_is_zero x = (x = Fin 0 \<or> x = NegZero)"

definition fl_is_inf :: "fl \<Rightarrow> bool" where
  "fl_is_inf x = (x = PInf \<or> x = NInf)"

definition fl_zero :: "bool \<Rightarrow> fl" where
  "fl_zero negative = (if negative then NegZero else Fin 0)"

definition fl_inf :: "bool \<Rightarrow> fl" where
  "fl_inf negative = (if negative then NInf else PInf)"

definition fneg :: "fl \<Rightarrow> fl" where
  "fneg x = (case x of Fin r \<Rightarrow> (if r = 0 then NegZero else Fin (- r)) | NegZero \<Rightarrow> Fin 0
             | PInf \<Rightarrow> NInf | NInf \<Rightarrow> PInf | NaN \<Rightarrow> NaN)"

definition fadd :: "fl \<Rightarrow> fl \<Rightarrow> fl" where
  "fadd a b =
     (if a = NaN \<or> b = NaN then NaN
      else if fl_is_inf a then (if fl_is_inf b \<and> a \<noteq> b then NaN else a)
      else if fl_is_inf b then b
      else if a = NegZero \<and> b = NegZero then NegZero
      else Fin (fl_val a + fl_val b))"

definition fsub :: "fl \<Rightarrow> fl \<Rightarrow> fl" where
  "fsub a b = fadd a (fneg b)"

definition fmul :: "fl \<Rightarrow> fl \<Rightarrow> fl" where
  "fmul a b =
     (if a = NaN \<or> b = NaN then NaN
      else if fl_is_inf a \<or> fl_is_inf b then
        (if fl_is_zero a \<or> fl_is_zero b then NaN else fl_inf (fl_sign a \<noteq> fl_sign b))
      else if fl_is_zero a \<or> fl_is_zero b then fl_zero (fl_sign a \<noteq> fl_sign b)
      else Fin (fl_val a * fl_val b))"

definition fdiv :: "fl \<Rightarrow> fl \<Rightarrow> fl" where
  "fdiv a b =
     (if a = NaN \<or> b = NaN then NaN
      else if fl_is_inf a then (if fl_is_inf b then NaN else fl_inf (fl_sign a \<noteq> fl_sign b))
      else if fl_is_inf b then fl_zero (fl_sign a \<noteq> fl_sign b)
      else if fl_is_zero b then (if fl_is_zero a then NaN else fl_inf (fl_sign a \<noteq> fl_sign b))
      else if fl_is_zero a then fl_zero (fl_sign a \<noteq> fl_sign b)
      else Fin (fl_val a / fl_val b))"

text \<open>The order of the non-NaN values: the rank of an infinity, then the real value.\<close>

definition fl_rank :: "fl \<Rightarrow> int \<times> real" where
  "fl_rank x = (case x of NInf \<Rightarrow> (-1, 0) | PInf \<Rightarrow> (1, 0) | _ \<Rightarrow> (0, fl_val x))"

definition fl_lt :: "fl \<Rightarrow> fl \<Rightarrow> bool" where
  "fl_lt a b = (a \<noteq> NaN \<and> b \<noteq> NaN \<and>
     (fst (fl_rank a) < fst (fl_rank b) \<or>
      fst (fl_rank a) = fst (fl_rank b) \<and> snd (fl_rank a) < snd (fl_rank b)))"

definition fl_le :: "fl \<Rightarrow> fl \<Rightarrow> bool" where
  "fl_le a b = (a \<noteq> NaN \<and> b \<noteq> NaN \<and>
     (fst (fl_rank a) < fst (fl_rank b) \<or>
      fst (fl_rank a) = fst (fl_rank b) \<and> snd (fl_rank a) \<le> snd (fl_rank b)))"

definition fl_gt :: "fl \<Rightarrow> fl \<Rightarrow> bool" where
  "fl_gt a b = fl_lt b a"

definition fl_ge :: "fl \<Rightarrow> fl \<Rightarrow> bool" where
  "fl_ge a b = fl_le b a"

section \<open>The pandas operations\<close>

text \<open>
  A series is a list of values, oldest first. The element-wise operations of the source
  are written out. The statistics of the pandas package (rolling mean, rolling standard
  deviation, exponentially weighted mean, standard deviation) and Python's number
  formatting are library code and are parameters of the model, collected in \<open>lib\<close>.
\<close>

type_synonym series = "fl list"

record lib =
  rolling_mean :: "nat \<Rightarrow> series \<Rightarrow> series"
  rolling_std :: "nat \<Rightarrow> series \<Rightarrow> series"
  ewm_mean :: "nat \<Rightarrow> series \<Rightarrow> series"
  series_std :: "series \<Rightarrow> fl"
  format_1f :: "fl \<Rightarrow> string"
  format_2f :: "fl \<Rightarrow> string"

text \<open>\<^verbatim>\<open>s.diff()\<close>: NaN first, then each value minus the one before it.\<close>

definition series_diff :: "series \<Rightarrow> series" where
  "series_diff xs = (case xs of [] \<Rightarrow> [] | x # rest \<Rightarrow> NaN # map2 (\<lambda>prev cur. fsub cur prev) xs rest)"

text \<open>\<^verbatim>\<open>s.pct_change()\<close>: NaN first, then each value divided by the one before it, minus 1.\<close>

definition pct_change :: "series \<Rightarrow> series" where
  "pct_change xs =
     (case xs of [] \<Rightarrow> []
      | x # rest \<Rightarrow> NaN # map2 (\<lambda>prev cur. fsub (fdiv cur prev) (Fin 1)) xs rest)"

text \<open>\<^verbatim>\<open>s.where(cond, other)\<close>: keeps the values that satisfy the condition.\<close>

definition series_where :: "(fl \<Rightarrow> bool) \<Rightarrow> fl \<Rightarrow> series \<Rightarrow> series" where
  "series_where cond other xs = map (\<lambda>x. if cond x then x else other) xs"

text \<open>\<^verbatim>\<open>s.iloc[-k]\<close>, read only where the series has at least \<open>k\<close> values.\<close>

definition iloc_back :: "series \<Rightarrow> nat \<Rightarrow> fl" where
  "iloc_back xs k = xs ! (length xs - k)"

text \<open>The RSI series of lines 113-118 (and of \<^verbatim>\<open>calculate_rsi\<close> in REALTIME_TRADING_BOT.py,
  which has the same five lines with \<^verbatim>\<open>period\<close> = 14).\<close>

definition rsi_gain :: "lib \<Rightarrow> nat \<Rightarrow> series \<Rightarrow> series" where
  "rsi_gain l period prices =
     rolling_mean l period (series_where (\<lambda>d. fl_gt d (Fin 0)) (Fin 0) (series_diff prices))"

definition rsi_loss :: "lib \<Rightarrow> nat \<Rightarrow> series \<Rightarrow> series" where
  "rsi_loss l period prices =
     rolling_mean l period
       (map fneg (series_where (\<lambda>d. fl_lt d (Fin 0)) (Fin 0) (series_diff prices)))"

definition rsi_series :: "lib \<Rightarrow> nat \<Rightarrow> series \<Rightarrow> series" where
  "rsi_series l period prices =
     (let gain = rsi_gain l period prices;
          loss = rsi_loss l period prices;
          rs = map2 fdiv gain loss
      in map (\<lambda>r. fsub (Fin 100) (fdiv (Fin 100) (fadd (Fin 1) r))) rs)"

text \<open>\<^verbatim>\<open>calculate_rsi\<close> of REALTIME_TRADING_BOT.py returns \<^verbatim>\<open>rsi.iloc[-1]\<close>, which raises
  IndexError on an empty series.\<close>

definition calculate_rsi :: "lib \<Rightarrow> series \<Rightarrow> fl option" where
  "calculate_rsi l prices =
     (let rsi = rsi_series l 14 prices in if rsi = [] then None else Some (last rsi))"

section \<open>The enhanced bot (src/ENHANCED_POCKET_OPTION_BOT.py)\<close>

text \<open>
  A data frame is the series of its \<^verbatim>\<open>Close\<close> column, the only column these functions
  read; \<open>None\<close> is Python's \<^verbatim>\<open>None\<close>, the empty list an empty frame. The fields of the
  indicator dictionary carry the prefix \<open>ind_\<close>, those of the signal dictionary the
  prefix \<open>po_\<close>.
\<close>

type_synonym dataframe = "series option"

record indicators =
  ind_current_price :: fl
  ind_rsi :: fl
  ind_macd :: fl
  ind_macd_signal :: fl
  ind_bb_upper :: fl
  ind_bb_middle :: fl
  ind_bb_lower :: fl
  ind_ma_20 :: fl
  ind_ma_50 :: fl
  ind_momentum_1 :: fl
  ind_momentum_5 :: fl
  ind_volatility :: fl

text \<open>\<^verbatim>\<open>x.iloc[-1] if not x.empty else default\<close>.\<close>

definition last_or :: "series \<Rightarrow> fl \<Rightarrow> fl" where
  "last_or xs d = (if xs \<noteq> [] then last xs else d)"

definition calculate_technical_indicators :: "lib \<Rightarrow> dataframe \<Rightarrow> indicators option" where
  "calculate_technical_indicators l data =
     (case data of
        None \<Rightarrow> None
      | Some close \<Rightarrow>
          if close = [] \<or> length close < 20 then None
          else
            (let price = last close;
                 rsi = rsi_series l 14 close;
                 exp1 = ewm_mean l 12 close;
                 exp2 = ewm_mean l 26 close;
                 macd = map2 fsub exp1 exp2;
                 signal_line = ewm_mean l 9 macd;
                 bb_middle = rolling_mean l 20 close;
                 bb_std = rolling_std l 20 close;
                 bb_upper = map2 fadd bb_middle (map (\<lambda>s. fmul s (Fin 2)) bb_std);
                 bb_lower = map2 fsub bb_middle (map (\<lambda>s. fmul s (Fin 2)) bb_std);
                 ma_20 = rolling_mean l 20 close;
                 ma_50 = rolling_mean l 50 close;
                 momentum_1 = (if length close > 1
                    then fmul (fdiv (fsub (iloc_back close 1) (iloc_back close 2))
                                    (iloc_back close 2)) (Fin 100)
                    else Fin 0);
                 momentum_5 = (if length close > 5
                    then fmul (fdiv (fsub (iloc_back close 1) (iloc_back close 6))
                                    (iloc_back close 6)) (Fin 100)
                    else Fin 0);
                 volatility = fmul (series_std l (pct_change close)) (Fin 100)
             in Some \<lparr>ind_current_price = price,
                      ind_rsi = last_or rsi (Fin 50),
                      ind_macd = last_or macd (Fin 0),
                      ind_macd_signal = last_or signal_line (Fin 0),
                      ind_bb_upper = last_or bb_upper price,
                      ind_bb_middle = last_or bb_middle price,
                      ind_bb_lower = last_or bb_lower price,
                      ind_ma_20 = last_or ma_20 price,
                      ind_ma_50 = last_or ma_50 price,
                      ind_momentum_1 = momentum_1,
                      ind_momentum_5 = momentum_5,
                      ind_volatility = volatility\<rparr>))"

text \<open>
  The scoring rules of \<^verbatim>\<open>generate_comprehensive_signal\<close>. The three local variables
  \<^verbatim>\<open>action\<close>, \<^verbatim>\<open>signal_strength\<close> and \<^verbatim>\<open>reasoning\<close> are the state that the five rules
  update in turn.
\<close>

record scoring =
  action :: string
  signal_strength :: int
  reasoning :: "string list"

definition add_score :: "int \<Rightarrow> string \<Rightarrow> scoring \<Rightarrow> scoring" where
  "add_score points reason s =
     s\<lparr>signal_strength := signal_strength s + points, reasoning := reasoning s @ [reason]\<rparr>"

definition rsi_rule :: "lib \<Rightarrow> indicators \<Rightarrow> scoring \<Rightarrow> scoring" where
  "rsi_rule l i s =
     (let rsi = ind_rsi i in
      if fl_lt rsi (Fin 30) then
        add_score 30 (''RSI oversold ('' @ format_1f l rsi @ '')'') (s\<lparr>action := ''CALL''\<rparr>)
      else if fl_gt rsi (Fin 70) then
        add_score 30 (''RSI overbought ('' @ format_1f l rsi @ '')'') (s\<lparr>action := ''PUT''\<rparr>)
      else if fl_lt rsi (Fin 40) then
        add_score 15 (''RSI bearish ('' @ format_1f l rsi @ '')'') s
      else if fl_gt rsi (Fin 60) then
        add_score 15 (''RSI bullish ('' @ format_1f l rsi @ '')'') s
      else add_score 5 (''RSI neutral ('' @ format_1f l rsi @ '')'') s)"

definition macd_rule :: "indicators \<Rightarrow> scoring \<Rightarrow> scoring" where
  "macd_rule i s =
     (if fl_gt (ind_macd i) (ind_macd_signal i) then
        add_score 25 ''MACD bullish crossover''
          (if action s = ''HOLD'' then s\<lparr>action := ''CALL''\<rparr> else s)
      else
        add_score 25 ''MACD bearish crossover''
          (if action s = ''HOLD'' then s\<lparr>action := ''PUT''\<rparr> else s))"

definition bollinger_rule :: "indicators \<Rightarrow> scoring \<Rightarrow> scoring" where
  "bollinger_rule i s =
     (let price = ind_current_price i in
      if fl_le price (ind_bb_lower i) then
        add_score 20 ''Price at lower Bollinger Band''
          (if action s \<in> set [''HOLD'', ''PUT''] then s\<lparr>action := ''CALL''\<rparr> else s)
      else if fl_ge price (ind_bb_upper i) then
        add_score 20 ''Price at upper Bollinger Band''
          (if action s \<in> set [''HOLD'', ''CALL''] then s\<lparr>action := ''PUT''\<rparr> else s)
      else if fl_gt price (ind_bb_middle i) \<and> action s = ''CALL'' then
        add_score 10 ''Price above Bollinger middle'' s
      else if fl_lt price (ind_bb_middle i) \<and> action s = ''PUT'' then
        add_score 10 ''Price below Bollinger middle'' s
      else s)"

definition ma_rule :: "indicators \<Rightarrow> scoring \<Rightarrow> scoring" where
  "ma_rule i s =
     (let price = ind_current_price i in
      if fl_gt price (ind_ma_20 i) then
        add_score 15 ''Price above MA20''
          (if action s = ''HOLD'' then s\<lparr>action := ''CALL''\<rparr> else s)
      else if fl_lt price (ind_ma_20 i) then
        add_score 15 ''Price below MA20''
          (if action s = ''HOLD'' then s\<lparr>action := ''PUT''\<rparr> else s)
      else s)"

definition momentum_rule :: "lib \<Rightarrow> indicators \<Rightarrow> scoring \<Rightarrow> scoring" where
  "momentum_rule l i s =
     (let m = ind_momentum_1 i in
      if fl_gt m (Fin 0.02) then
        add_score 15 (''Strong positive momentum (+'' @ format_2f l m @ ''%)'')
          (if action s = ''HOLD'' then s\<lparr>action := ''CALL''\<rparr> else s)
      else if fl_lt m (Fin (- 0.02)) then
        add_score 15 (''Strong negative momentum ('' @ format_2f l m @ ''%)'')
          (if action s = ''HOLD'' then s\<lparr>action := ''PUT''\<rparr> else s)
      else if fl_gt m (Fin 0) then
        add_score 5 (''Positive momentum (+'' @ format_2f l m @ ''%)'') s
      else if fl_lt m (Fin 0) then
        add_score 5 (''Negative momentum ('' @ format_2f l m @ ''%)'') s
      else s)"

definition initial_scoring :: scoring where
  "initial_scoring = \<lparr>action = ''HOLD'', signal_strength = 0, reasoning = []\<rparr>"

text \<open>The state after all five rules, in the order of the source.\<close>

definition score_signal :: "lib \<Rightarrow> indicators \<Rightarrow> scoring" where
  "score_signal l i =
     momentum_rule l i (ma_rule i (bollinger_rule i (macd_rule i (rsi_rule l i initial_scoring))))"

definition confidence_level_of :: "int \<Rightarrow> string" where
  "confidence_level_of strength =
     (if strength \<ge> 80 then ''VERY HIGH''
      else if strength \<ge> 60 then ''HIGH''
      else if strength \<ge> 40 then ''MEDIUM''
      else ''LOW'')"

text \<open>\<^verbatim>\<open>sep.join(parts)\<close>.\<close>

fun join :: "string \<Rightarrow> string list \<Rightarrow> string" where
  "join sep [] = []"
| "join sep [x] = x"
| "join sep (x # y # ys) = x @ sep @ join sep (y # ys)"

record po_signal =
  po_pair :: string
  po_pair_symbol :: string
  po_action :: string
  po_current_price :: fl
  po_timeframe :: string
  po_period :: string
  po_expiry_time :: string
  po_signal_strength :: int
  po_confidence :: string
  po_risk_level :: string
  po_rsi :: fl
  po_macd :: fl
  po_macd_signal :: fl
  po_momentum :: fl
  po_volatility :: fl
  po_bb_position :: string
  po_ma_position :: string
  po_reasoning :: string
  po_timestamp :: string
  po_data_freshness :: string

text \<open>The bot object: its two display dictionaries (their values hold non-ASCII
  characters and are parameters of the model).\<close>

record bot =
  po_pairs :: "(string \<times> string) list"
  expiry_options :: "(string \<times> string) list"

text \<open>
  \<^verbatim>\<open>generate_comprehensive_signal\<close>. The argument \<open>data\<close> is what
  \<^verbatim>\<open>get_live_market_data(pair_symbol)\<close> returned: \<^verbatim>\<open>None\<close> after a failed download, else a
  dictionary from timeframe to data frame. The argument \<open>now\<close> is the formatted clock
  read of the timestamp.
\<close>

definition generate_comprehensive_signal ::
  "bot \<Rightarrow> lib \<Rightarrow> string \<Rightarrow> (string \<times> dataframe) list option \<Rightarrow> string \<Rightarrow> string \<Rightarrow> string
   \<Rightarrow> po_signal option" where
  "generate_comprehensive_signal self l now data pair_symbol timeframe period =
     (case data of
        None \<Rightarrow> None
      | Some d \<Rightarrow>
          if d = [] then None
          else
            (case map_of d timeframe of
               None \<Rightarrow> None
             | Some frame \<Rightarrow>
                 (case calculate_technical_indicators l frame of
                    None \<Rightarrow> None
                  | Some i \<Rightarrow>
                      (let s = score_signal l i;
                           price = ind_current_price i;
                           vol = ind_volatility i
                       in Some
                         \<lparr>po_pair = dict_get (map_of (po_pairs self) pair_symbol) pair_symbol,
                          po_pair_symbol = pair_symbol,
                          po_action = action s,
                          po_current_price = price,
                          po_timeframe = timeframe,
                          po_period = period,
                          po_expiry_time = dict_get (map_of (expiry_options self) period) period,
                          po_signal_strength = min (signal_strength s) 95,
                          po_confidence = confidence_level_of (signal_strength s),
                          po_risk_level = (if fl_lt vol (Fin 1) then ''LOW''
                                           else if fl_lt vol (Fin 2) then ''MEDIUM''
                                           else ''HIGH''),
                          po_rsi = ind_rsi i,
                          po_macd = ind_macd i,
                          po_macd_signal = ind_macd_signal i,
                          po_momentum = ind_momentum_1 i,
                          po_volatility = vol,
                          po_bb_position = (if fl_le price (ind_bb_lower i) then ''Lower Band''
                                            else if fl_ge price (ind_bb_upper i) then ''Upper Band''
                                            else ''Middle Range''),
                          po_ma_position = (if fl_gt price (ind_ma_20 i) then ''Above MA20''
                                            else ''Below MA20''),
                          po_reasoning = join ''. '' (reasoning s),
                          po_timestamp = now,
                          po_data_freshness =
                            (if frame \<noteq> None \<and> length (the frame) > 0 then ''LIVE''
                             else ''STALE'')\<rparr>))))"

text \<open>The hardcoded fixture of \<^verbatim>\<open>display_comprehensive_signal\<close>, and the signal that
  function goes on to display: the generated one, or the fixture when there is none.\<close>

definition fallback_signal :: "bot \<Rightarrow> string \<Rightarrow> string \<Rightarrow> string \<Rightarrow> string \<Rightarrow> po_signal" where
  "fallback_signal self now pair_symbol timeframe period =
     \<lparr>po_pair = dict_get (map_of (po_pairs self) pair_symbol) pair_symbol,
      po_pair_symbol = pair_symbol,
      po_action = ''CALL'',
      po_current_price = Fin 1.0923,
      po_timeframe = timeframe,
      po_period = period,
      po_expiry_time = dict_get (map_of (expiry_options self) period) period,
      po_signal_strength = 75,
      po_confidence = ''MEDIUM'',
      po_risk_level = ''LOW'',
      po_rsi = Fin 45.2,
      po_macd = Fin 0.0012,
      po_macd_signal = Fin 0.0010,
      po_momentum = Fin 0.05,
      po_volatility = Fin 0.8,
      po_bb_position = ''Middle Range'',
      po_ma_position = ''Above MA20'',
      po_reasoning = ''Real-time data temporarily unavailable. Using market simulation.'',
      po_timestamp = now,
      po_data_freshness = ''SIMULATED''\<rparr>"

definition displayed_signal ::
  "bot \<Rightarrow> lib \<Rightarrow> string \<Rightarrow> (string \<times> dataframe) list option \<Rightarrow> string \<Rightarrow> string \<Rightarrow> string
   \<Rightarrow> po_signal" where
  "displayed_signal self l now data pair_symbol timeframe period =
     (case generate_comprehensive_signal self l now data pair_symbol timeframe period of
        None \<Rightarrow> fallback_signal self now pair_symbol timeframe period
      | Some signal_data \<Rightarrow> signal_data)"

section \<open>The technical analyser (src/OnnixBot with Payments/technical_analysis.py)\<close>

text \<open>
  A row of the data frame that \<^verbatim>\<open>calculate_indicators\<close> returns: the price columns and
  the indicator columns that \<^verbatim>\<open>generate_signal\<close> reads, with the prefix \<open>col_\<close>. The
  indicator columns are computed by the \<^verbatim>\<open>ta\<close> package and are inputs of the model,
  as \<^typ>\<open>real\<close> numbers like the values of the risk manager.
\<close>

record ta_row =
  col_Open :: real
  col_High :: real
  col_Low :: real
  col_Close :: real
  col_MA20 :: real
  col_MA50 :: real
  col_RSI :: real
  col_MACD :: real
  col_MACD_Signal :: real
  col_BB_Upper :: real
  col_BB_Lower :: real
  col_Stoch_K :: real
  col_Stoch_D :: real
  col_ADX :: real
  col_ATR :: real

definition detect_candlestick_patterns :: "ta_row list \<Rightarrow> string list" where
  "detect_candlestick_patterns data =
     (if length data < 2 then []
      else
        (let latest = last data;
             prev = data ! (length data - 2);
             body = \<bar>col_Close latest - col_Open latest\<bar>;
             upper_shadow = col_High latest - max (col_Open latest) (col_Close latest);
             lower_shadow = min (col_Open latest) (col_Close latest) - col_Low latest;
             doji = (if body \<le> (col_High latest - col_Low latest) * 0.1 then [''doji''] else []);
             hammer = (if lower_shadow \<ge> 2 * body \<and> upper_shadow \<le> body
                       then [''hammer''] else []);
             shooting_star = (if upper_shadow \<ge> 2 * body \<and> lower_shadow \<le> body
                       then [''shooting_star''] else []);
             engulfing =
               (if col_Close latest > col_Open latest then
                  (if col_Close prev < col_Open prev \<and> col_Open latest < col_Close prev
                      \<and> col_Close latest > col_Open prev
                   then [''bullish_engulfing''] else [])
                else
                  (if col_Close prev > col_Open prev \<and> col_Open latest > col_Close prev
                      \<and> col_Close latest < col_Open prev
                   then [''bearish_engulfing''] else []));
             stars =
               (if length data \<ge> 3 then
                  (let first = data ! (length data - 3);
                       second = data ! (length data - 2);
                       small = \<bar>col_Open second - col_Close second\<bar> < body * 0.5;
                       middle = (col_Open first + col_Close first) / 2
                   in (if col_Close first < col_Open first \<and> small
                          \<and> col_Close latest > col_Open latest \<and> col_Close latest > middle
                       then [''morning_star''] else [])
                    @ (if col_Close first > col_Open first \<and> small
                          \<and> col_Close latest < col_Open latest \<and> col_Close latest < middle
                       then [''evening_star''] else []))
                else [])
         in doji @ hammer @ shooting_star @ engulfing @ stars))"

text \<open>The scoring of \<^verbatim>\<open>generate_signal\<close>: the local variables \<^verbatim>\<open>signal_score\<close>,
  \<^verbatim>\<open>confidence\<close> and \<^verbatim>\<open>reasons\<close>, updated by six rules in turn.\<close>

record ta_scoring =
  signal_score :: int
  ta_confidence :: int
  ta_reasons :: "string list"

definition vote :: "int \<Rightarrow> string \<Rightarrow> int \<Rightarrow> ta_scoring \<Rightarrow> ta_scoring" where
  "vote v reason points s =
     \<lparr>signal_score = signal_score s + v, ta_confidence = ta_confidence s + points,
      ta_reasons = ta_reasons s @ [reason]\<rparr>"

definition ta_rsi_rule :: "ta_row \<Rightarrow> ta_scoring \<Rightarrow> ta_scoring" where
  "ta_rsi_rule latest s =
     (if col_RSI latest < 30 then vote 1 ''RSI Oversold'' 10 s
      else if col_RSI latest > 70 then vote (-1) ''RSI Overbought'' 10 s
      else s)"

definition ta_macd_rule :: "ta_row \<Rightarrow> ta_scoring \<Rightarrow> ta_scoring" where
  "ta_macd_rule latest s =
     (if col_MACD latest > col_MACD_Signal latest then vote 1 ''MACD Bullish Crossover'' 15 s
      else vote (-1) ''MACD Bearish'' 15 s)"

definition ta_ma_rule :: "ta_row \<Rightarrow> ta_scoring \<Rightarrow> ta_scoring" where
  "ta_ma_rule latest s =
     (if col_Close latest > col_MA20 latest \<and> col_MA20 latest > col_MA50 latest
        then vote 2 ''Price above MA20 > MA50'' 20 s
      else if col_Close latest < col_MA20 latest \<and> col_MA20 latest < col_MA50 latest
        then vote (-2) ''Price below MA20 < MA50'' 20 s
      else s)"

definition ta_bb_rule :: "ta_row \<Rightarrow> ta_scoring \<Rightarrow> ta_scoring" where
  "ta_bb_rule latest s =
     (if col_Close latest < col_BB_Lower latest then vote 1 ''Price below BB Lower'' 15 s
      else if col_Close latest > col_BB_Upper latest then vote (-1) ''Price above BB Upper'' 15 s
      else s)"

definition ta_stoch_rule :: "ta_row \<Rightarrow> ta_scoring \<Rightarrow> ta_scoring" where
  "ta_stoch_rule latest s =
     (if col_Stoch_K latest < 20 \<and> col_Stoch_D latest < 20
        then vote 1 ''Stochastic Oversold'' 10 s
      else if col_Stoch_K latest > 80 \<and> col_Stoch_D latest > 80
        then vote (-1) ''Stochastic Overbought'' 10 s
      else s)"

definition ta_pattern_rule :: "string list \<Rightarrow> ta_scoring \<Rightarrow> ta_scoring" where
  "ta_pattern_rule pats s =
     (let s1 = (if ''bullish_engulfing'' \<in> set pats
                then vote 2 ''Bullish Engulfing Pattern'' 25 s else s)
      in if ''hammer'' \<in> set pats then vote 1 ''Hammer Pattern'' 20 s1 else s1)"

definition ta_score_signal :: "ta_row \<Rightarrow> string list \<Rightarrow> ta_scoring" where
  "ta_score_signal latest pats =
     ta_pattern_rule pats (ta_stoch_rule latest (ta_bb_rule latest (ta_ma_rule latest
       (ta_macd_rule latest (ta_rsi_rule latest
          \<lparr>signal_score = 0, ta_confidence = 0, ta_reasons = []\<rparr>)))))"

text \<open>
  \<^verbatim>\<open>generate_signal\<close>. The argument \<open>df\<close> is the data frame after
  \<^verbatim>\<open>calculate_indicators\<close>, which has the rows of the downloaded one; with no rows the
  function answers the error dictionary (\<open>Inl\<close>). On numeric columns nothing else in the
  \<^verbatim>\<open>try\<close> block raises.
\<close>

definition generate_signal :: "string \<Rightarrow> ta_row list \<Rightarrow> string + signal_dict" where
  "generate_signal symbol_name df =
     (if df = [] then Inl (''No data available for '' @ symbol_name)
      else
        (let latest = last df;
             pats = detect_candlestick_patterns df;
             s = ta_score_signal latest pats;
             sig = (if signal_score s \<ge> 3 then ''BUY''
                    else if signal_score s \<le> -3 then ''SELL'' else ''HOLD'');
             conf = min (ta_confidence s) 95;
             price = col_Close latest;
             atr = col_ATR latest;
             stop = (if sig = ''BUY'' then price - atr * 1.5 else price + atr * 1.5);
             target = (if sig = ''BUY'' then price + atr * 2 else price - atr * 2)
         in Inr \<lparr>symbol = Some symbol_name, signal_type = Some sig, confidence = Some (of_int conf),
                 current_price = Some price, entry_price = Some price,
                 stop_loss = Some stop, take_profit = Some target,
                 reasons = Some (ta_reasons s), patterns = Some pats,
                 technical_indicators = Some
                   \<lparr>RSI = Some (col_RSI latest), MACD = Some (col_MACD latest),
                    MACD_Signal = Some (col_MACD_Signal latest),
                    ADX = Some (col_ADX latest)\<rparr>\<rparr>))"

section \<open>Concrete inputs\<close>

text \<open>
  An instance of the library parameters, to run the model on concrete series. The rolling
  mean is NaN until the window is full and then the sum of the window divided by its
  size; the exponentially weighted mean is the weighted average with the weights
  \<open>(1 - \<alpha>) ^ k\<close>, \<open>\<alpha> = 2 / (span + 1)\<close>; the standard deviations are the sample standard
  deviation of the values that are numbers; a number is rendered as a question mark.
\<close>

definition window_mean :: "nat \<Rightarrow> series \<Rightarrow> fl" where
  "window_mean w xs =
     (if length xs < w then NaN
      else fdiv (foldl fadd (Fin 0) (drop (length xs - w) xs)) (Fin (real w)))"

definition prefixes_map :: "(series \<Rightarrow> fl) \<Rightarrow> series \<Rightarrow> series" where
  "prefixes_map f xs = map (\<lambda>k. f (take (Suc k) xs)) [0..<length xs]"

fun weighted_sum :: "real \<Rightarrow> series \<Rightarrow> fl" where
  "weighted_sum q [] = Fin 0"
| "weighted_sum q (x # older) = fadd x (fmul (Fin q) (weighted_sum q older))"

definition ewm_value :: "nat \<Rightarrow> series \<Rightarrow> fl" where
  "ewm_value sp xs =
     (let q = 1 - 2 / (real sp + 1)
      in fdiv (weighted_sum q (rev xs)) (Fin (\<Sum>k<length xs. q ^ k)))"

definition sample_std :: "series \<Rightarrow> fl" where
  "sample_std xs =
     (let vs = map fl_val (filter (\<lambda>x. x \<noteq> NaN) xs);
          n = length vs;
          m = sum_list vs / real n
      in if n < 2 then NaN
         else Fin (sqrt (sum_list (map (\<lambda>v. (v - m)\<^sup>2) vs) / real (n - 1))))"

definition window_std :: "nat \<Rightarrow> series \<Rightarrow> fl" where
  "window_std w xs = (if length xs < w then NaN else sample_std (drop (length xs - w) xs))"

definition example_lib :: lib where
  "example_lib =
     \<lparr>rolling_mean = (\<lambda>w. prefixes_map (window_mean w)),
      rolling_std = (\<lambda>w. prefixes_map (window_std w)),
      ewm_mean = (\<lambda>sp. prefixes_map (ewm_value sp)),
      series_std = sample_std,
      format_1f = (\<lambda>x. ''?''),
      format_2f = (\<lambda>x. ''?'')\<rparr>"

text \<open>Twenty closing prices that rise by 1 at every bar.\<close>

definition rising_prices :: series where
  "rising_prices =
     [Fin 1, Fin 2, Fin 3, Fin 4, Fin 5, Fin 6, Fin 7, Fin 8, Fin 9, Fin 10,
      Fin 11, Fin 12, Fin 13, Fin 14, Fin 15, Fin 16, Fin 17, Fin 18, Fin 19, Fin 20]"

definition example_bot :: bot where
  "example_bot = \<lparr>po_pairs = [(''EURUSD'', ''EUR/USD'')], expiry_options = [(''5m'', ''5 Minutes'')]\<rparr>"

definition example_market :: "(string \<times> dataframe) list option" where
  "example_market = Some [(''5m'', Some rising_prices)]"

text \<open>The indicators of a sharp drop: the MACD is below its signal line and the price
  has fallen below the lower Bollinger band.\<close>

definition drop_indicators :: indicators where
  "drop_indicators =
     \<lparr>ind_current_price = Fin 0.9, ind_rsi = Fin 35, ind_macd = Fin (- 0.01),
      ind_macd_signal = Fin (- 0.005), ind_bb_upper = Fin 1.1, ind_bb_middle = Fin 1,
      ind_bb_lower = Fin 0.95, ind_ma_20 = Fin 1, ind_ma_50 = NaN,
      ind_momentum_1 = Fin (- 5), ind_momentum_5 = Fin (- 8), ind_volatility = Fin 1.5\<rparr>"

text \<open>A one-row data frame of the technical analyser: only the MACD rule fires
  (bearish), so the signal is HOLD; the ATR is 1.\<close>

definition quiet_row :: ta_row where
  "quiet_row =
     \<lparr>col_Open = 10, col_High = 10.5, col_Low = 9.5, col_Close = 10, col_MA20 = 10,
      col_MA50 = 10, col_RSI = 50, col_MACD = 0, col_MACD_Signal = 0, col_BB_Upper = 11,
      col_BB_Lower = 9, col_Stoch_K = 50, col_Stoch_D = 50, col_ADX = 20, col_ATR = 1\<rparr>"

section \<open>Properties of the risk manager\<close>

lemma check_daily_limits_same_day:
  "last_reset st = d \<Longrightarrow>
   check_daily_limits cfg d d2 st = (signals_sent st \<ge> dict_get (MAX_DAILY_SIGNALS cfg) 50, st)"
  by (simp add: check_daily_limits_def)

text \<open>
  Claim C8. For a non-negative account balance and risk percentage and a positive
  stop-loss distance, the position size is (balance * risk_percentage/100) / stop_distance,
  capped by \<open>min\<close> at the configured maximum position size (default 100); with balance
  1000, risk 2 and stop distance 0.005 the uncapped value is 4000.
\<close>

theorem position_size_formula:
  assumes "0 \<le> b" and "0 \<le> r" and "0 < d"
  shows "calculate_position_size cfg b r d
           = min (b * (r / 100) / d) (dict_get (MAX_POSITION_SIZE cfg) 100)
         \<and> calculate_position_size cfg 1000 2 0.005
           = min 4000 (dict_get (MAX_POSITION_SIZE cfg) 100)"
  using assms by (simp add: calculate_position_size_def Let_def)

theorem position_size_formula_witness:
  "(0::real) \<le> 1000 \<and> (0::real) \<le> 2 \<and> (0::real) < 0.005
   \<and> calculate_position_size default_config 1000 2 0.005 = 100"
  using position_size_formula [of 1000 2 "0.005" default_config]
  by (simp add: default_config_def dict_get_def)

text \<open>
  Claim C4. When the current price or the stop-loss of a signal is zero or missing,
  \<open>assess_trade_risk\<close> returns the initial assessment with recommendation REJECTED and
  the warning "Invalid price data", and leaves the daily statistics untouched. The
  source returns here before any arithmetic, so nothing can raise on this path.
\<close>

theorem invalid_price_rejected:
  assumes "current_price sg \<in> {None, Some 0} \<or> stop_loss sg \<in> {None, Some 0}"
  shows "assess_trade_risk cfg now1 now2 st sg bal
           = (\<lparr>risk_level = ''LOW'', score = 0, max_loss = 0, risk_reward_ratio = 0,
               warnings = [''Invalid price data''], recommendation = ''REJECTED'',
               position_size = 0\<rparr>, st)"
  using assms by (auto simp add: assess_trade_risk_def dict_get_def initial_assessment_def)

theorem invalid_price_rejected_witness:
  "(current_price empty_signal \<in> {None, Some 0} \<or> stop_loss empty_signal \<in> {None, Some 0})
   \<and> recommendation (fst (assess_trade_risk default_config 0 0 (reset_daily_stats 0)
                               empty_signal 1000)) = ''REJECTED''
   \<and> warnings (fst (assess_trade_risk default_config 0 0 (reset_daily_stats 0)
                         empty_signal 1000)) = [''Invalid price data'']"
proof -
  have h: "current_price empty_signal \<in> {None, Some 0} \<or> stop_loss empty_signal \<in> {None, Some 0}"
    by (simp add: empty_signal_def)
  show ?thesis
    using h invalid_price_rejected [OF h, of default_config 0 0 "reset_daily_stats 0" 1000]
    by simp
qed

text \<open>
  Claim C5. When the stored date differs from the date the operation reads, the limit
  check and the statistics update first replace the statistics by the reset ones (all
  counters zero, the stored date the current one) and then read or increment them; the
  reset operation produces those reset statistics whatever the state was.
\<close>

theorem rollover_resets_first:
  assumes "last_reset st \<noteq> now1"
  shows "check_daily_limits cfg now1 now2 st
           = (0 \<ge> dict_get (MAX_DAILY_SIGNALS cfg) 50, reset_daily_stats now2)
         \<and> update_daily_stats now1 now2 sent tr st
           = update_daily_stats now2 now2 sent tr (reset_daily_stats now2)
         \<and> signals_sent (reset_daily_stats now2) = 0
         \<and> trades_taken (reset_daily_stats now2) = 0
         \<and> profit_loss (reset_daily_stats now2) = 0
         \<and> last_reset (reset_daily_stats now2) = now2"
  using assms by (simp add: check_daily_limits_def update_daily_stats_def reset_daily_stats_def)

theorem rollover_resets_first_witness:
  "last_reset (reset_daily_stats 0\<lparr>signals_sent := 7\<rparr>) \<noteq> 1
   \<and> check_daily_limits default_config 1 1 (reset_daily_stats 0\<lparr>signals_sent := 7\<rparr>)
       = (False, reset_daily_stats 1)
   \<and> signals_sent (update_daily_stats 1 1 True None (reset_daily_stats 0\<lparr>signals_sent := 7\<rparr>)) = 1"
proof -
  have h: "last_reset (reset_daily_stats 0\<lparr>signals_sent := 7\<rparr>) \<noteq> 1"
    by (simp add: reset_daily_stats_def)
  show ?thesis
    using h rollover_resets_first [OF h, of default_config 1 True None]
    by (simp add: default_config_def dict_get_def update_daily_stats_def reset_daily_stats_def)
qed

text \<open>
  Claim C2, as stated, fails: a BUY signal with entry and stop-loss both 1.1, confidence
  50 and no indicators is assessed CAUTION on a day whose limit is not reached.
\<close>

theorem stop_equals_entry_counterexample:
  "current_price flat_stop_signal = stop_loss flat_stop_signal
   \<and> current_price flat_stop_signal = Some 1.1
   \<and> recommendation (fst (assess_trade_risk default_config 0 0 (reset_daily_stats 0)
                              flat_stop_signal 1000)) = ''CAUTION''"
  by (simp add: flat_stop_signal_def empty_signal_def assess_trade_risk_def dict_get_def
        default_config_def reset_daily_stats_def check_daily_limits_def rr_section_def
        no_indicators_def stop_section_def confidence_section_def volatility_section_def alignment_score_def
        calculate_position_size_def Let_def)

lemma alignment_score_bounds: "-2 \<le> alignment_score sg \<and> alignment_score sg \<le> 2"
  by (simp add: alignment_score_def Let_def)

lemma confidence_section_fst: "s - 2 \<le> fst (confidence_section c (s, w))"
  by (simp add: confidence_section_def)

lemma confidence_section_snd: "set w \<subseteq> set (snd (confidence_section c (s, w)))"
  by (auto simp add: confidence_section_def)

lemma volatility_section_fst: "s \<le> fst (volatility_section sg (s, w))"
  by (simp add: volatility_section_def Let_def)

lemma volatility_section_snd: "set w \<subseteq> set (snd (volatility_section sg (s, w)))"
  by (auto simp add: volatility_section_def Let_def)

lemma assess_trade_risk_flat_stop:
  assumes "current_price sg = Some p" and "stop_loss sg = Some p" and "p \<noteq> 0"
  shows "fst (assess_trade_risk cfg now1 now2 st sg bal) =
    (let c3 = confidence_section (dict_get (confidence sg) 0)
                (4, [''Poor risk-reward ratio'', ''Very tight stop loss'']);
         c4 = volatility_section sg (fst c3 + alignment_score sg, snd c3);
         limit = fst (check_daily_limits cfg now1 now2 st)
     in \<lparr>risk_level = risk_level_of (fst c4), score = fst c4, max_loss = 0,
         risk_reward_ratio = 0,
         warnings = (if limit then snd c4 @ [''Daily trading limit reached''] else snd c4),
         recommendation = (if limit then ''REJECTED''
            else if fst c4 > 4 \<or> dict_get (confidence sg) 0 < 20 then ''REJECTED''
            else if fst c4 > 2 then ''CAUTION'' else ''APPROVED''),
         position_size = min 0 (dict_get (MAX_POSITION_SIZE cfg) 100)\<rparr>)"
  using assms
  by (simp add: assess_trade_risk_def dict_get_def rr_section_def stop_section_def
        calculate_position_size_def Let_def case_prod_beta)

text \<open>
  Claim C2, amended. When the stop-loss equals the non-zero current price, the zero
  distance is not a ground for rejection by itself: the risk-reward ratio and the maximum
  loss are 0, the position size is 0 capped at the configured maximum, the warnings
  "Poor risk-reward ratio" and "Very tight stop loss" are present, the score is not
  negative, and the recommendation is REJECTED exactly when the score exceeds 4, the
  confidence is below 20 or the daily limit is reached.
\<close>

theorem stop_equals_entry_assessment:
  fixes cfg :: config and now1 now2 :: date and st :: daily_stats and sg :: signal_dict
    and bal p :: real
  assumes "current_price sg = Some p" and "stop_loss sg = Some p" and "p \<noteq> 0"
  defines "ra \<equiv> fst (assess_trade_risk cfg now1 now2 st sg bal)"
  shows "risk_reward_ratio ra = 0 \<and> max_loss ra = 0
         \<and> position_size ra = min 0 (dict_get (MAX_POSITION_SIZE cfg) 100)
         \<and> ''Poor risk-reward ratio'' \<in> set (warnings ra)
         \<and> ''Very tight stop loss'' \<in> set (warnings ra)
         \<and> 0 \<le> score ra
         \<and> (recommendation ra = ''REJECTED'' \<longleftrightarrow>
              score ra > 4 \<or> dict_get (confidence sg) 0 < 20
              \<or> fst (check_daily_limits cfg now1 now2 st))"
proof -
  let ?c3 = "confidence_section (dict_get (confidence sg) 0)
               (4, [''Poor risk-reward ratio'', ''Very tight stop loss''])"
  let ?c4 = "volatility_section sg (fst ?c3 + alignment_score sg, snd ?c3)"
  note eq = assess_trade_risk_flat_stop [OF assms(1-3), of cfg now1 now2 st bal]
  have w3: "set [''Poor risk-reward ratio'', ''Very tight stop loss''] \<subseteq> set (snd ?c3)"
    by (rule confidence_section_snd)
  have w4: "set (snd ?c3) \<subseteq> set (snd ?c4)"
    by (rule volatility_section_snd)
  have s3: "2 \<le> fst ?c3"
    using confidence_section_fst [of 4 "dict_get (confidence sg) 0"
            "[''Poor risk-reward ratio'', ''Very tight stop loss'']"] by simp
  have s4: "0 \<le> fst ?c4"
    using volatility_section_fst [of "fst ?c3 + alignment_score sg" sg "snd ?c3"]
      s3 alignment_score_bounds [of sg] by linarith
  have a: "risk_reward_ratio ra = 0" "max_loss ra = 0"
      "position_size ra = min 0 (dict_get (MAX_POSITION_SIZE cfg) 100)"
    unfolding ra_def eq by (simp_all add: Let_def)
  have b: "set (snd ?c4) \<subseteq> set (warnings ra)"
    unfolding ra_def eq by (auto simp add: Let_def)
  have c: "score ra = fst ?c4"
    unfolding ra_def eq by (simp add: Let_def)
  have d: "recommendation ra = ''REJECTED'' \<longleftrightarrow>
              score ra > 4 \<or> dict_get (confidence sg) 0 < 20
              \<or> fst (check_daily_limits cfg now1 now2 st)"
    unfolding ra_def eq by (simp add: Let_def)
  from w3 w4 b have "''Poor risk-reward ratio'' \<in> set (warnings ra)"
    "''Very tight stop loss'' \<in> set (warnings ra)" by auto
  with a c d s4 show ?thesis by simp
qed

theorem stop_equals_entry_assessment_witness:
  "current_price flat_stop_signal = Some 1.1 \<and> stop_loss flat_stop_signal = Some 1.1
   \<and> (1.1::real) \<noteq> 0
   \<and> risk_reward_ratio (fst (assess_trade_risk default_config 0 0 (reset_daily_stats 0)
                               flat_stop_signal 1000)) = 0
   \<and> position_size (fst (assess_trade_risk default_config 0 0 (reset_daily_stats 0)
                               flat_stop_signal 1000)) = 0"
proof -
  have h: "current_price flat_stop_signal = Some 1.1" "stop_loss flat_stop_signal = Some 1.1"
      "(1.1::real) \<noteq> 0"
    by (simp_all add: flat_stop_signal_def empty_signal_def)
  show ?thesis
    using h stop_equals_entry_assessment [OF h, of default_config 0 0 "reset_daily_stats 0" 1000]
    by (simp add: default_config_def dict_get_def)
qed

lemma update_signal_sent_same_day:
  "last_reset (update_daily_stats d d True None st) = d
   \<and> signals_sent (update_daily_stats d d True None st)
       = (if last_reset st = d then signals_sent st + 1 else 1)"
  by (simp add: update_daily_stats_def reset_daily_stats_def)

lemma record_signals_Suc:
  "record_signals (Suc n) d st = update_daily_stats d d True None (record_signals n d st)"
  by (simp add: record_signals_def)

lemma record_signals_count:
  "0 \<le> signals_sent st \<Longrightarrow>
   int n \<le> signals_sent (record_signals n d st)
   \<and> (0 < n \<longrightarrow> last_reset (record_signals n d st) = d)"
proof (induction n)
  case 0
  then show ?case by (simp add: record_signals_def)
next
  case (Suc n)
  then show ?case
    using update_signal_sent_same_day [of d "record_signals n d st"]
    by (auto simp add: record_signals_Suc split: if_splits)
qed

lemma limit_reached_after_recordings:
  assumes "0 \<le> signals_sent st"
  shows "fst (check_daily_limits cfg d d
               (record_signals (nat (dict_get (MAX_DAILY_SIGNALS cfg) 50) + k) d st))"
proof -
  let ?n = "nat (dict_get (MAX_DAILY_SIGNALS cfg) 50) + k"
  let ?st = "record_signals ?n d st"
  have c: "int ?n \<le> signals_sent ?st" and l: "0 < ?n \<longrightarrow> last_reset ?st = d"
    using record_signals_count [OF assms, of ?n d] by simp_all
  show ?thesis
  proof (cases "last_reset ?st = d")
    case True
    have "dict_get (MAX_DAILY_SIGNALS cfg) 50 \<le> int ?n" by simp
    with c have "dict_get (MAX_DAILY_SIGNALS cfg) 50 \<le> signals_sent ?st" by linarith
    with True show ?thesis by (simp add: check_daily_limits_def Let_def)
  next
    case False
    with l have "?n = 0" by blast
    with False show ?thesis
      by (simp add: check_daily_limits_def Let_def reset_daily_stats_def)
  qed
qed

lemma assess_trade_risk_limit:
  assumes "fst (check_daily_limits cfg now1 now2 st)"
  shows "recommendation (fst (assess_trade_risk cfg now1 now2 st sg bal)) = ''REJECTED''
         \<and> (dict_get (current_price sg) 0 \<noteq> 0 \<and> dict_get (stop_loss sg) 0 \<noteq> 0 \<longrightarrow>
              warnings (fst (assess_trade_risk cfg now1 now2 st sg bal)) \<noteq> [] \<and>
              last (warnings (fst (assess_trade_risk cfg now1 now2 st sg bal)))
                = ''Daily trading limit reached'')
         \<and> (dict_get (current_price sg) 0 = 0 \<or> dict_get (stop_loss sg) 0 = 0 \<longrightarrow>
              warnings (fst (assess_trade_risk cfg now1 now2 st sg bal))
                = [''Invalid price data''])"
  using assms
  by (simp add: assess_trade_risk_def Let_def case_prod_beta initial_assessment_def)

text \<open>
  Claim C3, as stated, fails in its last part: once the limit is reached, an assessment
  of a signal without a price is REJECTED by the early return, and the daily-limit
  warning is not appended to it.
\<close>

theorem daily_limit_warning_counterexample:
  "fst (check_daily_limits two_signal_config 0 0 (record_signals 2 0 (reset_daily_stats 0)))
   \<and> ''Daily trading limit reached'' \<notin> set (warnings (fst (assess_trade_risk two_signal_config 0 0
         (record_signals 2 0 (reset_daily_stats 0)) empty_signal 1000)))"
  by (simp add: two_signal_config_def default_config_def record_signals_def numeral_2_eq_2
        update_daily_stats_def reset_daily_stats_def check_daily_limits_def dict_get_def
        assess_trade_risk_def empty_signal_def initial_assessment_def)

text \<open>
  Claim C3, amended. After MAX_DAILY_SIGNALS (or more) signal-sent recordings on one day,
  starting from statistics with a non-negative counter, the limit check of that day
  answers true and every assessment of that day is REJECTED; the daily-limit warning is
  the last warning whenever the price and the stop-loss of the signal are both non-zero,
  and otherwise the only warning is "Invalid price data".
\<close>

theorem daily_limit_rejects:
  fixes cfg :: config and d :: date and st :: daily_stats and sg :: signal_dict
    and bal :: real and k :: nat
  assumes "0 \<le> signals_sent st"
  defines "st' \<equiv> record_signals (nat (dict_get (MAX_DAILY_SIGNALS cfg) 50) + k) d st"
  defines "ra \<equiv> fst (assess_trade_risk cfg d d st' sg bal)"
  shows "fst (check_daily_limits cfg d d st')
         \<and> recommendation ra = ''REJECTED''
         \<and> (dict_get (current_price sg) 0 \<noteq> 0 \<and> dict_get (stop_loss sg) 0 \<noteq> 0 \<longrightarrow>
              warnings ra \<noteq> [] \<and> last (warnings ra) = ''Daily trading limit reached'')
         \<and> (dict_get (current_price sg) 0 = 0 \<or> dict_get (stop_loss sg) 0 = 0 \<longrightarrow>
              warnings ra = [''Invalid price data''])"
proof -
  have lim: "fst (check_daily_limits cfg d d st')"
    unfolding st'_def by (rule limit_reached_after_recordings [OF assms(1)])
  from assess_trade_risk_limit [OF lim, of sg bal] lim show ?thesis
    unfolding ra_def by simp
qed

theorem daily_limit_rejects_witness:
  "0 \<le> signals_sent (reset_daily_stats 0)
   \<and> fst (check_daily_limits two_signal_config 0 0 (record_signals 2 0 (reset_daily_stats 0)))
   \<and> recommendation (fst (assess_trade_risk two_signal_config 0 0
         (record_signals 2 0 (reset_daily_stats 0)) flat_stop_signal 1000)) = ''REJECTED''
   \<and> last (warnings (fst (assess_trade_risk two_signal_config 0 0
         (record_signals 2 0 (reset_daily_stats 0)) flat_stop_signal 1000)))
       = ''Daily trading limit reached''"
proof -
  have h: "0 \<le> signals_sent (reset_daily_stats 0)"
    by (simp add: reset_daily_stats_def)
  have n: "nat (dict_get (MAX_DAILY_SIGNALS two_signal_config) 50) + 0 = 2"
    by (simp add: two_signal_config_def default_config_def dict_get_def)
  have p: "dict_get (current_price flat_stop_signal) 0 \<noteq> 0"
      "dict_get (stop_loss flat_stop_signal) 0 \<noteq> 0"
    by (simp_all add: flat_stop_signal_def empty_signal_def dict_get_def)
  show ?thesis
    using h p daily_limit_rejects [OF h, of two_signal_config 0 0 flat_stop_signal 1000]
    unfolding n by simp
qed

section \<open>Properties of the signal generators\<close>

lemma add_score_simps:
  "action (add_score p r s) = action s"
  "signal_strength (add_score p r s) = signal_strength s + p"
  "reasoning (add_score p r s) = reasoning s @ [r]"
  by (simp_all add: add_score_def)

lemma rsi_rule_strength: "signal_strength s \<le> signal_strength (rsi_rule l i s)"
  by (simp add: rsi_rule_def Let_def add_score_simps)

lemma macd_rule_strength: "signal_strength s \<le> signal_strength (macd_rule i s)"
  by (simp add: macd_rule_def add_score_simps)

lemma bollinger_rule_strength: "signal_strength s \<le> signal_strength (bollinger_rule i s)"
  by (simp add: bollinger_rule_def Let_def add_score_simps)

lemma ma_rule_strength: "signal_strength s \<le> signal_strength (ma_rule i s)"
  by (simp add: ma_rule_def Let_def add_score_simps)

lemma momentum_rule_strength: "signal_strength s \<le> signal_strength (momentum_rule l i s)"
  by (simp add: momentum_rule_def Let_def add_score_simps)

lemma rsi_rule_reasoning: "\<exists>r. reasoning (rsi_rule l i s) = reasoning s @ r"
  by (simp add: rsi_rule_def Let_def add_score_simps)

lemma macd_rule_reasoning: "\<exists>r. reasoning (macd_rule i s) = reasoning s @ r"
  by (simp add: macd_rule_def add_score_simps)

lemma bollinger_rule_reasoning: "\<exists>r. reasoning (bollinger_rule i s) = reasoning s @ r"
  by (simp add: bollinger_rule_def Let_def add_score_simps)

lemma ma_rule_reasoning: "\<exists>r. reasoning (ma_rule i s) = reasoning s @ r"
  by (simp add: ma_rule_def Let_def add_score_simps)

lemma momentum_rule_reasoning: "\<exists>r. reasoning (momentum_rule l i s) = reasoning s @ r"
  by (simp add: momentum_rule_def Let_def add_score_simps)

lemma score_signal_nonneg: "0 \<le> signal_strength (score_signal l i)"
proof -
  have "0 \<le> signal_strength initial_scoring" by (simp add: initial_scoring_def)
  also have "\<dots> \<le> signal_strength (rsi_rule l i initial_scoring)" by (rule rsi_rule_strength)
  also have "\<dots> \<le> signal_strength (macd_rule i (rsi_rule l i initial_scoring))"
    by (rule macd_rule_strength)
  also have "\<dots> \<le> signal_strength (bollinger_rule i (macd_rule i (rsi_rule l i initial_scoring)))"
    by (rule bollinger_rule_strength)
  also have "\<dots> \<le> signal_strength (ma_rule i (bollinger_rule i (macd_rule i (rsi_rule l i initial_scoring))))"
    by (rule ma_rule_strength)
  also have "\<dots> \<le> signal_strength (score_signal l i)"
    unfolding score_signal_def by (rule momentum_rule_strength)
  finally show ?thesis .
qed



lemma vote_simps:
  "ta_confidence (vote v r p s) = ta_confidence s + p"
  "signal_score (vote v r p s) = signal_score s + v"
  by (simp_all add: vote_def)

lemma ta_rsi_rule_confidence: "ta_confidence s \<le> ta_confidence (ta_rsi_rule latest s)"
  by (simp add: ta_rsi_rule_def vote_simps)

lemma ta_macd_rule_confidence: "ta_confidence s \<le> ta_confidence (ta_macd_rule latest s)"
  by (simp add: ta_macd_rule_def vote_simps)

lemma ta_ma_rule_confidence: "ta_confidence s \<le> ta_confidence (ta_ma_rule latest s)"
  by (simp add: ta_ma_rule_def vote_simps)

lemma ta_bb_rule_confidence: "ta_confidence s \<le> ta_confidence (ta_bb_rule latest s)"
  by (simp add: ta_bb_rule_def vote_simps)

lemma ta_stoch_rule_confidence: "ta_confidence s \<le> ta_confidence (ta_stoch_rule latest s)"
  by (simp add: ta_stoch_rule_def vote_simps)

lemma ta_pattern_rule_confidence: "ta_confidence s \<le> ta_confidence (ta_pattern_rule pats s)"
  by (simp add: ta_pattern_rule_def vote_simps Let_def)

lemma ta_score_signal_nonneg: "0 \<le> ta_confidence (ta_score_signal latest pats)"
proof -
  let ?s0 = "\<lparr>signal_score = 0, ta_confidence = 0, ta_reasons = []\<rparr>"
  let ?s1 = "ta_rsi_rule latest ?s0"
  let ?s2 = "ta_macd_rule latest ?s1"
  let ?s3 = "ta_ma_rule latest ?s2"
  let ?s4 = "ta_bb_rule latest ?s3"
  let ?s5 = "ta_stoch_rule latest ?s4"
  have "0 \<le> ta_confidence ?s0" by simp
  also have "\<dots> \<le> ta_confidence ?s1" by (rule ta_rsi_rule_confidence)
  also have "\<dots> \<le> ta_confidence ?s2" by (rule ta_macd_rule_confidence)
  also have "\<dots> \<le> ta_confidence ?s3" by (rule ta_ma_rule_confidence)
  also have "\<dots> \<le> ta_confidence ?s4" by (rule ta_bb_rule_confidence)
  also have "\<dots> \<le> ta_confidence ?s5" by (rule ta_stoch_rule_confidence)
  also have "\<dots> \<le> ta_confidence (ta_score_signal latest pats)"
    unfolding ta_score_signal_def by (rule ta_pattern_rule_confidence)
  finally show ?thesis .
qed

lemma calculate_technical_indicators_Some:
  assumes "calculate_technical_indicators l frame = Some i"
  shows "\<exists>close. frame = Some close \<and> 20 \<le> length close"
proof (cases frame)
  case None
  with assms show ?thesis by (simp add: calculate_technical_indicators_def)
next
  case (Some close)
  have "\<not> length close < 20"
  proof
    assume "length close < 20"
    with assms Some show False by (simp add: calculate_technical_indicators_def)
  qed
  with Some show ?thesis by simp
qed

lemma generate_comprehensive_signal_fields:
  assumes "data = Some d" and "d \<noteq> []" and "map_of d tf = Some frame"
    and "calculate_technical_indicators l frame = Some i"
  shows "\<exists>sd. generate_comprehensive_signal self l now data ps tf per = Some sd
           \<and> po_signal_strength sd = min (signal_strength (score_signal l i)) 95
           \<and> po_action sd = action (score_signal l i)
           \<and> po_data_freshness sd
               = (if frame \<noteq> None \<and> length (the frame) > 0 then ''LIVE'' else ''STALE'')"
  using assms by (simp add: generate_comprehensive_signal_def Let_def)

lemma generate_comprehensive_signal_Some:
  assumes "generate_comprehensive_signal self l now data ps tf per = Some sd"
  shows "\<exists>d close i. data = Some d \<and> d \<noteq> [] \<and> map_of d tf = Some (Some close)
           \<and> 20 \<le> length close
           \<and> calculate_technical_indicators l (Some close) = Some i
           \<and> po_signal_strength sd = min (signal_strength (score_signal l i)) 95
           \<and> po_action sd = action (score_signal l i)
           \<and> po_data_freshness sd = ''LIVE''"
proof -
  obtain d where d: "data = Some d"
    using assms by (cases data) (simp_all add: generate_comprehensive_signal_def)
  have ne: "d \<noteq> []"
  proof
    assume "d = []"
    with assms d show False by (simp add: generate_comprehensive_signal_def)
  qed
  obtain frame where fr: "map_of d tf = Some frame"
    using assms d ne by (cases "map_of d tf") (simp_all add: generate_comprehensive_signal_def)
  obtain i where i: "calculate_technical_indicators l frame = Some i"
    using assms d ne fr
    by (cases "calculate_technical_indicators l frame")
       (simp_all add: generate_comprehensive_signal_def)
  obtain close where cl: "frame = Some close" "20 \<le> length close"
    using calculate_technical_indicators_Some [OF i] by blast
  from generate_comprehensive_signal_fields [OF d ne fr i, of self now ps per] assms cl
  have "po_signal_strength sd = min (signal_strength (score_signal l i)) 95
        \<and> po_action sd = action (score_signal l i) \<and> po_data_freshness sd = ''LIVE''"
    by auto
  with d ne fr i cl show ?thesis by blast
qed

lemma fl_Fin_simps:
  "fadd (Fin a) (Fin b) = Fin (a + b)"
  "fsub (Fin a) (Fin b) = Fin (a - b)"
  "fneg (Fin a) = (if a = 0 then NegZero else Fin (- a))"
  "0 < b \<Longrightarrow> fdiv (Fin a) (Fin b) = Fin (a / b)"
  "fl_lt (Fin a) (Fin b) = (a < b)"
  "fl_gt (Fin a) (Fin b) = (b < a)"
  "fl_le (Fin a) (Fin b) = (a \<le> b)"
  "fl_ge (Fin a) (Fin b) = (b \<le> a)"
  by (auto simp add: fadd_def fsub_def fneg_def fdiv_def fl_lt_def fl_gt_def fl_le_def fl_ge_def
        fl_is_inf_def fl_is_zero_def fl_val_def fl_rank_def fl_zero_def fl_sign_def)

lemma fl_NaN_simps:
  "fl_lt NaN x = False" "fl_lt x NaN = False" "fl_gt NaN x = False" "fl_gt x NaN = False"
  "fl_le NaN x = False" "fl_le x NaN = False" "fl_ge NaN x = False" "fl_ge x NaN = False"
  by (simp_all add: fl_lt_def fl_gt_def fl_le_def fl_ge_def)

lemma last_map2:
  "length xs = length ys \<Longrightarrow> xs \<noteq> [] \<Longrightarrow> last (map2 f xs ys) = f (last xs) (last ys)"
  by (induction xs ys rule: list_induct2) (auto simp add: last_ConsR)

lemma rsi_value_at_zero_loss:
  assumes "0 < g" and "fl_is_zero z"
  shows "fsub (Fin 100) (fdiv (Fin 100) (fadd (Fin 1) (fdiv (Fin g) z))) = Fin 100"
proof -
  from assms consider "z = Fin 0" | "z = NegZero" by (auto simp add: fl_is_zero_def)
  then show ?thesis
  proof cases
    case 1
    with assms have "fdiv (Fin g) z = PInf"
      by (simp add: fdiv_def fl_is_inf_def fl_is_zero_def fl_inf_def fl_sign_def)
    then show ?thesis
      by (simp add: fadd_def fdiv_def fsub_def fneg_def fl_is_inf_def fl_is_zero_def
            fl_zero_def fl_sign_def fl_val_def)
  next
    case 2
    with assms have "fdiv (Fin g) z = NInf"
      by (simp add: fdiv_def fl_is_inf_def fl_is_zero_def fl_inf_def fl_sign_def)
    then show ?thesis
      by (simp add: fadd_def fdiv_def fsub_def fneg_def fl_is_inf_def fl_is_zero_def
            fl_zero_def fl_sign_def fl_val_def)
  qed
qed

lemma rsi_series_last:
  assumes "length (rsi_gain l p prices) = length (rsi_loss l p prices)"
    and "rsi_gain l p prices \<noteq> []"
  shows "rsi_series l p prices \<noteq> [] \<and>
         last (rsi_series l p prices)
           = fsub (Fin 100) (fdiv (Fin 100) (fadd (Fin 1)
               (fdiv (last (rsi_gain l p prices)) (last (rsi_loss l p prices)))))"
proof -
  let ?g = "rsi_gain l p prices" and ?l = "rsi_loss l p prices"
  have ne: "map2 fdiv ?g ?l \<noteq> []" using assms by (cases ?g; cases ?l) simp_all
  have "last (map2 fdiv ?g ?l) = fdiv (last ?g) (last ?l)"
    using assms by (rule last_map2)
  with ne show ?thesis by (simp add: rsi_series_def Let_def last_map)
qed

lemma last_prefixes_map: "xs \<noteq> [] \<Longrightarrow> last (prefixes_map f xs) = f xs"
  by (simp add: prefixes_map_def last_map)

lemma length_prefixes_map: "length (prefixes_map f xs) = length xs"
  by (simp add: prefixes_map_def)

lemma rolling_mean_example: "rolling_mean example_lib w = prefixes_map (window_mean w)"
  by (simp add: example_lib_def)

lemma rising_gain_length:
  "length (rsi_gain example_lib 14 rising_prices) = 20"
  "length (rsi_loss example_lib 14 rising_prices) = 20"
  by (simp_all add: rsi_gain_def rsi_loss_def rolling_mean_example length_prefixes_map
        series_where_def series_diff_def rising_prices_def)

lemma rising_gain_last: "last (rsi_gain example_lib 14 rising_prices) = Fin 1"
  by (simp add: rsi_gain_def rolling_mean_example last_prefixes_map
        series_where_def series_diff_def rising_prices_def window_mean_def
        fl_Fin_simps fl_NaN_simps)

lemma rising_loss_last: "last (rsi_loss example_lib 14 rising_prices) = Fin 0"
  by (simp add: rsi_loss_def rolling_mean_example last_prefixes_map
        series_where_def series_diff_def rising_prices_def window_mean_def
        fl_Fin_simps fl_NaN_simps fadd_def fl_is_inf_def fl_val_def)

text \<open>
  Claim C7. When the last 14-period rolling average loss is a zero (of either sign) and
  the last average gain is a positive number, the RSI is 100: the division by the zero
  loss gives an infinity, no error and no default. This holds for \<open>calculate_rsi\<close> and
  for the RSI entry of \<open>calculate_technical_indicators\<close>.
\<close>

theorem rsi_zero_loss_is_100:
  assumes "length (rsi_gain l 14 prices) = length (rsi_loss l 14 prices)"
    and "rsi_gain l 14 prices \<noteq> []"
    and "last (rsi_gain l 14 prices) = Fin g" and "0 < g"
    and "fl_is_zero (last (rsi_loss l 14 prices))"
  shows "calculate_rsi l prices = Some (Fin 100)
         \<and> (20 \<le> length prices \<longrightarrow>
              (\<exists>i. calculate_technical_indicators l (Some prices) = Some i
                    \<and> ind_rsi i = Fin 100))"
proof -
  have s: "rsi_series l 14 prices \<noteq> []" "last (rsi_series l 14 prices) = Fin 100"
    using rsi_series_last [OF assms(1,2)] rsi_value_at_zero_loss [OF assms(4,5)] assms(3)
    by simp_all
  have a: "calculate_rsi l prices = Some (Fin 100)"
    using s by (simp add: calculate_rsi_def Let_def)
  have b: "\<exists>i. calculate_technical_indicators l (Some prices) = Some i \<and> ind_rsi i = Fin 100"
    if "20 \<le> length prices"
  proof -
    from that have "prices \<noteq> []" "\<not> length prices < 20" by auto
    then show ?thesis
      using s by (simp add: calculate_technical_indicators_def Let_def last_or_def)
  qed
  from a b show ?thesis by blast
qed

theorem rsi_zero_loss_is_100_witness:
  "length (rsi_gain example_lib 14 rising_prices) = length (rsi_loss example_lib 14 rising_prices)
   \<and> rsi_gain example_lib 14 rising_prices \<noteq> []
   \<and> last (rsi_gain example_lib 14 rising_prices) = Fin 1 \<and> (0::real) < 1
   \<and> fl_is_zero (last (rsi_loss example_lib 14 rising_prices))
   \<and> 20 \<le> length rising_prices
   \<and> calculate_rsi example_lib rising_prices = Some (Fin 100)
   \<and> (\<exists>i. calculate_technical_indicators example_lib (Some rising_prices) = Some i
            \<and> ind_rsi i = Fin 100)"
proof -
  have h1: "length (rsi_gain example_lib 14 rising_prices)
              = length (rsi_loss example_lib 14 rising_prices)"
    by (simp add: rising_gain_length)
  have h2: "rsi_gain example_lib 14 rising_prices \<noteq> []"
    using rising_gain_length(1) by fastforce
  have h3: "last (rsi_gain example_lib 14 rising_prices) = Fin 1"
    by (rule rising_gain_last)
  have h4: "(0::real) < 1" by simp
  have h5: "fl_is_zero (last (rsi_loss example_lib 14 rising_prices))"
    by (simp add: rising_loss_last fl_is_zero_def)
  have h6: "20 \<le> length rising_prices" by (simp add: rising_prices_def)
  show ?thesis
    using h1 h2 h3 h4 h5 h6 rsi_zero_loss_is_100 [OF h1 h2 h3 h4 h5] by blast
qed

text \<open>
  Claim C9. A signal that \<open>generate_comprehensive_signal\<close> returns is computed from a
  data frame of at least 20 bars and has data freshness LIVE; the signal that is
  displayed is never STALE, and it is SIMULATED exactly when the generation returned
  nothing and the fixture took its place.
\<close>

theorem generated_signal_is_live:
  "(generate_comprehensive_signal self l now data ps tf per = Some sd \<longrightarrow>
      po_data_freshness sd = ''LIVE''
      \<and> (\<exists>d close. data = Some d \<and> map_of d tf = Some (Some close) \<and> 20 \<le> length close))
   \<and> po_data_freshness (displayed_signal self l now data ps tf per) \<noteq> ''STALE''
   \<and> (po_data_freshness (displayed_signal self l now data ps tf per) = ''SIMULATED''
        \<longleftrightarrow> generate_comprehensive_signal self l now data ps tf per = None)"
proof (cases "generate_comprehensive_signal self l now data ps tf per")
  case None
  then show ?thesis by (simp add: displayed_signal_def fallback_signal_def)
next
  case (Some sd')
  from generate_comprehensive_signal_Some [OF Some]
  have live: "po_data_freshness sd' = ''LIVE''"
    and ex: "\<exists>d close. data = Some d \<and> map_of d tf = Some (Some close) \<and> 20 \<le> length close"
    by blast+
  from Some have "displayed_signal self l now data ps tf per = sd'"
    by (simp add: displayed_signal_def)
  with Some live ex show ?thesis by auto
qed

lemma example_signal_exists:
  "\<exists>sd. generate_comprehensive_signal example_bot example_lib ''12:00:00'' example_market
          ''EURUSD'' ''5m'' ''5m'' = Some sd"
proof -
  have "\<exists>i. calculate_technical_indicators example_lib (Some rising_prices) = Some i"
    by (simp add: calculate_technical_indicators_def rising_prices_def Let_def)
  then obtain i where i: "calculate_technical_indicators example_lib (Some rising_prices) = Some i" ..
  have d: "example_market = Some [(''5m'', Some rising_prices)]"
    by (simp add: example_market_def)
  have ne: "[(''5m'', Some rising_prices)] \<noteq> []" by simp
  have m: "map_of [(''5m'', Some rising_prices)] ''5m'' = Some (Some rising_prices)" by simp
  from generate_comprehensive_signal_fields [OF d ne m i] show ?thesis by blast
qed

theorem generated_signal_is_live_witness:
  "\<exists>sd. generate_comprehensive_signal example_bot example_lib ''12:00:00'' example_market
          ''EURUSD'' ''5m'' ''5m'' = Some sd \<and> po_data_freshness sd = ''LIVE''"
proof -
  obtain sd where sd: "generate_comprehensive_signal example_bot example_lib ''12:00:00''
      example_market ''EURUSD'' ''5m'' ''5m'' = Some sd"
    using example_signal_exists by blast
  with generated_signal_is_live [of example_bot example_lib "''12:00:00''" example_market
      "''EURUSD''" "''5m''" "''5m''" sd]
  show ?thesis by blast
qed

lemma generate_signal_Inr:
  assumes "generate_signal nm df = Inr sg"
  shows "df \<noteq> []" and "sg = projr (generate_signal nm df)"
  using assms by (auto simp add: generate_signal_def split: if_splits)

lemma generate_signal_fields:
  fixes nm :: string and df :: "ta_row list"
  assumes "df \<noteq> []"
  defines "s \<equiv> ta_score_signal (last df) (detect_candlestick_patterns df)"
  defines "sg \<equiv> projr (generate_signal nm df)"
  shows "generate_signal nm df = Inr sg"
    and "confidence sg = Some (of_int (min (ta_confidence s) 95))"
    and "signal_type sg = Some (if signal_score s \<ge> 3 then ''BUY''
                                 else if signal_score s \<le> -3 then ''SELL'' else ''HOLD'')"
    and "current_price sg = Some (col_Close (last df))"
    and "entry_price sg = Some (col_Close (last df))"
    and "stop_loss sg = Some (if signal_score s \<ge> 3
           then col_Close (last df) - col_ATR (last df) * 1.5
           else col_Close (last df) + col_ATR (last df) * 1.5)"
    and "take_profit sg = Some (if signal_score s \<ge> 3
           then col_Close (last df) + col_ATR (last df) * 2
           else col_Close (last df) - col_ATR (last df) * 2)"
  using assms(1) unfolding s_def sg_def
  by (simp_all add: generate_signal_def Let_def)

lemma quiet_row_patterns: "detect_candlestick_patterns [quiet_row] = []"
  by (simp add: detect_candlestick_patterns_def)

lemma quiet_row_score:
  "ta_score_signal quiet_row [] =
     \<lparr>signal_score = - 1, ta_confidence = 15, ta_reasons = [''MACD Bearish'']\<rparr>"
  by (simp add: ta_score_signal_def ta_pattern_rule_def ta_stoch_rule_def ta_bb_rule_def
        ta_ma_rule_def ta_macd_rule_def ta_rsi_rule_def vote_def quiet_row_def)

lemma quiet_row_signal:
  "generate_signal ''EURUSD=X'' [quiet_row] = Inr (projr (generate_signal ''EURUSD=X'' [quiet_row]))"
  "signal_type (projr (generate_signal ''EURUSD=X'' [quiet_row])) = Some ''HOLD''"
  "confidence (projr (generate_signal ''EURUSD=X'' [quiet_row])) = Some 15"
  "stop_loss (projr (generate_signal ''EURUSD=X'' [quiet_row])) = Some 11.5"
  "take_profit (projr (generate_signal ''EURUSD=X'' [quiet_row])) = Some 8"
  "entry_price (projr (generate_signal ''EURUSD=X'' [quiet_row])) = Some 10"
proof -
  have ne: "[quiet_row] \<noteq> []" by simp
  note f = generate_signal_fields [OF ne, of "''EURUSD=X''"]
  note e = quiet_row_patterns quiet_row_score
  have q: "col_Close quiet_row = 10" "col_ATR quiet_row = 1"
    by (simp_all add: quiet_row_def)
  show "generate_signal ''EURUSD=X'' [quiet_row] = Inr (projr (generate_signal ''EURUSD=X'' [quiet_row]))"
    by (rule f(1))
  show "signal_type (projr (generate_signal ''EURUSD=X'' [quiet_row])) = Some ''HOLD''"
    using f(3) by (simp add: e)
  show "confidence (projr (generate_signal ''EURUSD=X'' [quiet_row])) = Some 15"
    using f(2) by (simp add: e)
  show "stop_loss (projr (generate_signal ''EURUSD=X'' [quiet_row])) = Some 11.5"
    using f(6) by (simp add: e q)
  show "take_profit (projr (generate_signal ''EURUSD=X'' [quiet_row])) = Some 8"
    using f(7) by (simp add: e q)
  show "entry_price (projr (generate_signal ''EURUSD=X'' [quiet_row])) = Some 10"
    using f(5) by (simp add: q)
qed

text \<open>
  Claim C6. The confidence of a generated signal is the sum of the rule points capped by
  \<open>min\<close> at 95, and lies between 0 and 95: for the signal strength of the enhanced bot
  and for the confidence of the technical analyser.
\<close>

theorem confidence_capped_at_95:
  "(generate_comprehensive_signal self l now data ps tf per = Some sd \<longrightarrow>
      (\<exists>d close i. data = Some d \<and> map_of d tf = Some (Some close)
          \<and> calculate_technical_indicators l (Some close) = Some i
          \<and> po_signal_strength sd = min (signal_strength (score_signal l i)) 95)
      \<and> 0 \<le> po_signal_strength sd \<and> po_signal_strength sd \<le> 95)
   \<and> (generate_signal nm df = Inr sg \<longrightarrow>
      confidence sg = Some (of_int (min (ta_confidence
          (ta_score_signal (last df) (detect_candlestick_patterns df))) 95))
      \<and> (\<exists>c. confidence sg = Some c \<and> 0 \<le> c \<and> c \<le> 95))"
proof -
  have a: "(\<exists>d close i. data = Some d \<and> map_of d tf = Some (Some close)
          \<and> calculate_technical_indicators l (Some close) = Some i
          \<and> po_signal_strength sd = min (signal_strength (score_signal l i)) 95)
      \<and> 0 \<le> po_signal_strength sd \<and> po_signal_strength sd \<le> 95"
    if g: "generate_comprehensive_signal self l now data ps tf per = Some sd"
  proof -
    from generate_comprehensive_signal_Some [OF g] obtain d close i where
      f: "data = Some d" "map_of d tf = Some (Some close)"
         "calculate_technical_indicators l (Some close) = Some i"
         "po_signal_strength sd = min (signal_strength (score_signal l i)) 95"
      by blast
    from f(4) score_signal_nonneg [of l i]
    have "0 \<le> po_signal_strength sd" "po_signal_strength sd \<le> 95" by simp_all
    with f show ?thesis by blast
  qed
  have b: "confidence sg = Some (of_int (min (ta_confidence
          (ta_score_signal (last df) (detect_candlestick_patterns df))) 95))
      \<and> (\<exists>c. confidence sg = Some c \<and> 0 \<le> c \<and> c \<le> 95)"
    if g: "generate_signal nm df = Inr sg"
  proof -
    from generate_signal_Inr [OF g] have ne: "df \<noteq> []" and sg: "sg = projr (generate_signal nm df)" .
    have c: "confidence sg = Some (of_int (min (ta_confidence
          (ta_score_signal (last df) (detect_candlestick_patterns df))) 95))"
      unfolding sg by (rule generate_signal_fields(2) [OF ne])
    moreover have "(0::real) \<le> of_int (min (ta_confidence
          (ta_score_signal (last df) (detect_candlestick_patterns df))) 95)"
      using ta_score_signal_nonneg [of "last df" "detect_candlestick_patterns df"] by simp
    moreover have "(of_int (min (ta_confidence
          (ta_score_signal (last df) (detect_candlestick_patterns df))) 95) :: real) \<le> 95"
      by (simp add: min_le_iff_disj)
    ultimately show ?thesis by blast
  qed
  from a b show ?thesis by blast
qed

theorem confidence_capped_at_95_witness:
  "(\<exists>sd. generate_comprehensive_signal example_bot example_lib ''12:00:00'' example_market
          ''EURUSD'' ''5m'' ''5m'' = Some sd
         \<and> 0 \<le> po_signal_strength sd \<and> po_signal_strength sd \<le> 95)
   \<and> (\<exists>sg. generate_signal ''EURUSD=X'' [quiet_row] = Inr sg \<and> confidence sg = Some 15)"
proof -
  obtain sd where sd: "generate_comprehensive_signal example_bot example_lib ''12:00:00''
      example_market ''EURUSD'' ''5m'' ''5m'' = Some sd"
    using example_signal_exists by blast
  note t = confidence_capped_at_95 [of example_bot example_lib "''12:00:00''" example_market
      "''EURUSD''" "''5m''" "''5m''" sd "''EURUSD=X''" "[quiet_row]"
      "projr (generate_signal ''EURUSD=X'' [quiet_row])"]
  from t [THEN conjunct1, rule_format, OF sd]
  have a: "0 \<le> po_signal_strength sd \<and> po_signal_strength sd \<le> 95" by (rule conjunct2)
  from t [THEN conjunct2, rule_format, OF quiet_row_signal(1)]
  have b: "\<exists>c. confidence (projr (generate_signal ''EURUSD=X'' [quiet_row])) = Some c
              \<and> 0 \<le> c \<and> c \<le> 95" by (rule conjunct2)
  have "\<exists>sg. generate_signal ''EURUSD=X'' [quiet_row] = Inr sg \<and> confidence sg = Some 15"
    using quiet_row_signal(1) quiet_row_signal(3) by (rule_tac x = "projr (generate_signal ''EURUSD=X'' [quiet_row])" in exI) simp
  with sd a show ?thesis by blast
qed

text \<open>
  Claim C10. In \<open>generate_signal\<close> of the technical analyser a signal is HOLD when the
  score lies strictly between -3 and 3, and it then takes the prices of the \<open>else\<close>
  branch, which is the SELL side: the stop-loss is the current price plus 1.5 times the
  ATR and the take-profit the current price minus twice the ATR; with a positive ATR
  the take-profit is below the entry price and the entry price below the stop-loss.
\<close>

theorem hold_signal_takes_sell_prices:
  assumes "generate_signal nm df = Inr sg" and "signal_type sg = Some ''HOLD''"
  shows "- 3 < signal_score (ta_score_signal (last df) (detect_candlestick_patterns df))
         \<and> signal_score (ta_score_signal (last df) (detect_candlestick_patterns df)) < 3
         \<and> entry_price sg = Some (col_Close (last df))
         \<and> stop_loss sg = Some (col_Close (last df) + col_ATR (last df) * 1.5)
         \<and> take_profit sg = Some (col_Close (last df) - col_ATR (last df) * 2)
         \<and> (0 < col_ATR (last df) \<longrightarrow>
              (\<exists>tp e sl. take_profit sg = Some tp \<and> entry_price sg = Some e
                 \<and> stop_loss sg = Some sl \<and> tp < e \<and> e < sl))"
proof -
  let ?sc = "signal_score (ta_score_signal (last df) (detect_candlestick_patterns df))"
  from generate_signal_Inr [OF assms(1)]
  have ne: "df \<noteq> []" and sg: "sg = projr (generate_signal nm df)" .
  note f = generate_signal_fields [OF ne, of nm]
  from assms(2) f(3) have sc: "\<not> 3 \<le> ?sc" "\<not> ?sc \<le> - 3"
    unfolding sg by (auto split: if_splits)
  from f(5) have e: "entry_price sg = Some (col_Close (last df))" unfolding sg .
  from f(6) sc have sl: "stop_loss sg = Some (col_Close (last df) + col_ATR (last df) * 1.5)"
    unfolding sg by simp
  from f(7) sc have tp: "take_profit sg = Some (col_Close (last df) - col_ATR (last df) * 2)"
    unfolding sg by simp
  from sc e sl tp show ?thesis by simp
qed

theorem hold_signal_takes_sell_prices_witness:
  "\<exists>sg. generate_signal ''EURUSD=X'' [quiet_row] = Inr sg \<and> signal_type sg = Some ''HOLD''
        \<and> 0 < col_ATR (last [quiet_row])
        \<and> take_profit sg = Some 8 \<and> entry_price sg = Some 10 \<and> stop_loss sg = Some 11.5"
proof -
  let ?sg = "projr (generate_signal ''EURUSD=X'' [quiet_row])"
  have atr: "0 < col_ATR (last [quiet_row])" by (simp add: quiet_row_def)
  note t = hold_signal_takes_sell_prices [OF quiet_row_signal(1) quiet_row_signal(2)]
  have "stop_loss ?sg = Some (col_Close (last [quiet_row]) + col_ATR (last [quiet_row]) * 1.5)"
    using t by simp
  then have sl: "stop_loss ?sg = Some 11.5" by (simp add: quiet_row_def)
  show ?thesis
    using quiet_row_signal(1) quiet_row_signal(2) atr quiet_row_signal(5) quiet_row_signal(6) sl
    by (rule_tac x = ?sg in exI) simp
qed

lemma rsi_rule_action:
  "action (rsi_rule l i s) =
     (if fl_lt (ind_rsi i) (Fin 30) then ''CALL''
      else if fl_gt (ind_rsi i) (Fin 70) then ''PUT'' else action s)"
  by (simp add: rsi_rule_def Let_def add_score_simps)

lemma macd_rule_action:
  "action (macd_rule i s) =
     (if action s = ''HOLD''
      then (if fl_gt (ind_macd i) (ind_macd_signal i) then ''CALL'' else ''PUT'')
      else action s)"
  by (simp add: macd_rule_def add_score_simps)

lemma bollinger_rule_action:
  assumes "action s = ''CALL'' \<or> action s = ''PUT''"
  shows "action (bollinger_rule i s) =
     (if fl_le (ind_current_price i) (ind_bb_lower i) then ''CALL''
      else if fl_ge (ind_current_price i) (ind_bb_upper i) then ''PUT'' else action s)"
  using assms by (auto simp add: bollinger_rule_def Let_def add_score_simps)

lemma ma_rule_action: "action s \<noteq> ''HOLD'' \<Longrightarrow> action (ma_rule i s) = action s"
  by (simp add: ma_rule_def Let_def add_score_simps)

lemma momentum_rule_action: "action s \<noteq> ''HOLD'' \<Longrightarrow> action (momentum_rule l i s) = action s"
  by (simp add: momentum_rule_def Let_def add_score_simps)

text \<open>
  Claim C1, as stated, fails in the enhanced bot: for the indicators of a sharp drop the
  MACD rule sets the direction PUT, and the Bollinger rule, evaluated later, turns it
  into CALL, which is the direction of the signal.
\<close>

theorem first_mover_counterexample:
  "action (macd_rule drop_indicators (rsi_rule example_lib drop_indicators initial_scoring))
     = ''PUT''
   \<and> action (bollinger_rule drop_indicators
        (macd_rule drop_indicators (rsi_rule example_lib drop_indicators initial_scoring)))
     = ''CALL''
   \<and> action (score_signal example_lib drop_indicators) = ''CALL''"
proof -
  let ?s1 = "rsi_rule example_lib drop_indicators initial_scoring"
  let ?s2 = "macd_rule drop_indicators ?s1"
  let ?s3 = "bollinger_rule drop_indicators ?s2"
  let ?s4 = "ma_rule drop_indicators ?s3"
  have v: "ind_rsi drop_indicators = Fin 35" "ind_macd drop_indicators = Fin (- 0.01)"
      "ind_macd_signal drop_indicators = Fin (- 0.005)"
      "ind_current_price drop_indicators = Fin 0.9" "ind_bb_lower drop_indicators = Fin 0.95"
    by (simp_all add: drop_indicators_def)
  have a1: "action ?s1 = ''HOLD''"
    by (simp add: rsi_rule_action v fl_Fin_simps initial_scoring_def)
  have a2: "action ?s2 = ''PUT''"
    by (simp add: macd_rule_action a1 v fl_Fin_simps)
  have a3: "action ?s3 = ''CALL''"
    using bollinger_rule_action [of ?s2 drop_indicators] a2 by (simp add: v fl_Fin_simps)
  have a4: "action ?s4 = ''CALL''"
    using ma_rule_action [of ?s3 drop_indicators] a3 by simp
  have a5: "action (momentum_rule example_lib drop_indicators ?s4) = ''CALL''"
    using momentum_rule_action [of ?s4 example_lib drop_indicators] a4 by simp
  from a2 a3 a5 show ?thesis by (simp add: score_signal_def)
qed

text \<open>
  Claim C1, amended. In the enhanced bot the RSI rule sets the direction at an extreme
  RSI, the MACD rule sets it when it is still HOLD, and after these two rules it is CALL
  or PUT; the Bollinger rule overrides it at the bands (CALL at or below the lower band,
  else PUT at or above the upper band) and keeps it otherwise; the moving-average and
  momentum rules never change it; no rule lowers the score or removes a reason. In the
  technical analyser no rule sets a direction: it is decided once, after all rules, from
  the sign and size of the net score.
\<close>

theorem direction_rules:
  fixes l :: lib and i :: indicators and nm :: string and df :: "ta_row list"
    and sg :: signal_dict
  defines "s1 \<equiv> rsi_rule l i initial_scoring"
  defines "s2 \<equiv> macd_rule i s1"
  defines "s3 \<equiv> bollinger_rule i s2"
  defines "s4 \<equiv> ma_rule i s3"
  defines "s5 \<equiv> momentum_rule l i s4"
  shows "score_signal l i = s5
    \<and> action s1 = (if fl_lt (ind_rsi i) (Fin 30) then ''CALL''
                   else if fl_gt (ind_rsi i) (Fin 70) then ''PUT'' else ''HOLD'')
    \<and> action s2 = (if action s1 = ''HOLD''
                   then (if fl_gt (ind_macd i) (ind_macd_signal i) then ''CALL'' else ''PUT'')
                   else action s1)
    \<and> action s2 \<in> {''CALL'', ''PUT''}
    \<and> action s3 = (if fl_le (ind_current_price i) (ind_bb_lower i) then ''CALL''
                   else if fl_ge (ind_current_price i) (ind_bb_upper i) then ''PUT''
                   else action s2)
    \<and> action s4 = action s3 \<and> action s5 = action s3
    \<and> signal_strength s1 \<le> signal_strength s2 \<and> signal_strength s2 \<le> signal_strength s3
    \<and> signal_strength s3 \<le> signal_strength s4 \<and> signal_strength s4 \<le> signal_strength s5
    \<and> (\<exists>r. reasoning s2 = reasoning s1 @ r) \<and> (\<exists>r. reasoning s3 = reasoning s2 @ r)
    \<and> (\<exists>r. reasoning s4 = reasoning s3 @ r) \<and> (\<exists>r. reasoning s5 = reasoning s4 @ r)
    \<and> (generate_signal nm df = Inr sg \<longrightarrow>
          signal_type sg = Some
            (if signal_score (ta_score_signal (last df) (detect_candlestick_patterns df)) \<ge> 3
             then ''BUY''
             else if signal_score (ta_score_signal (last df) (detect_candlestick_patterns df)) \<le> - 3
             then ''SELL'' else ''HOLD''))"
proof -
  have a0: "score_signal l i = s5"
    by (simp add: score_signal_def s5_def s4_def s3_def s2_def s1_def)
  have a1: "action s1 = (if fl_lt (ind_rsi i) (Fin 30) then ''CALL''
                   else if fl_gt (ind_rsi i) (Fin 70) then ''PUT'' else ''HOLD'')"
    unfolding s1_def by (simp add: rsi_rule_action initial_scoring_def)
  have a2: "action s2 = (if action s1 = ''HOLD''
                   then (if fl_gt (ind_macd i) (ind_macd_signal i) then ''CALL'' else ''PUT'')
                   else action s1)"
    unfolding s2_def by (rule macd_rule_action)
  have a2': "action s2 = ''CALL'' \<or> action s2 = ''PUT''"
    unfolding a2 a1 by simp
  have a3: "action s3 = (if fl_le (ind_current_price i) (ind_bb_lower i) then ''CALL''
                   else if fl_ge (ind_current_price i) (ind_bb_upper i) then ''PUT''
                   else action s2)"
    unfolding s3_def by (rule bollinger_rule_action [OF a2'])
  have h3: "action s3 \<noteq> ''HOLD''" using a3 a2' by auto
  have a4: "action s4 = action s3" unfolding s4_def by (rule ma_rule_action [OF h3])
  have a5: "action s5 = action s3"
    unfolding s5_def using momentum_rule_action [of s4 l i] a4 h3 by simp
  have b: "signal_strength s1 \<le> signal_strength s2" "signal_strength s2 \<le> signal_strength s3"
      "signal_strength s3 \<le> signal_strength s4" "signal_strength s4 \<le> signal_strength s5"
    unfolding s2_def s3_def s4_def s5_def
    by (rule macd_rule_strength bollinger_rule_strength ma_rule_strength
          momentum_rule_strength)+
  have c: "\<exists>r. reasoning s2 = reasoning s1 @ r" "\<exists>r. reasoning s3 = reasoning s2 @ r"
      "\<exists>r. reasoning s4 = reasoning s3 @ r" "\<exists>r. reasoning s5 = reasoning s4 @ r"
    unfolding s2_def s3_def s4_def s5_def
    by (rule macd_rule_reasoning bollinger_rule_reasoning ma_rule_reasoning
          momentum_rule_reasoning)+
  have d: "signal_type sg = Some
            (if signal_score (ta_score_signal (last df) (detect_candlestick_patterns df)) \<ge> 3
             then ''BUY''
             else if signal_score (ta_score_signal (last df) (detect_candlestick_patterns df)) \<le> - 3
             then ''SELL'' else ''HOLD'')"
    if g: "generate_signal nm df = Inr sg"
  proof -
    from generate_signal_Inr [OF g]
    have ne: "df \<noteq> []" and sg: "sg = projr (generate_signal nm df)" .
    show ?thesis unfolding sg by (rule generate_signal_fields(3) [OF ne])
  qed
  from a2' have a2'': "action s2 \<in> {''CALL'', ''PUT''}" by simp
  from a0 a1 a2 a2'' a3 a4 a5 b c d show ?thesis by blast
qed

theorem direction_rules_witness:
  "action (score_signal example_lib drop_indicators)
     = action (bollinger_rule drop_indicators
         (macd_rule drop_indicators (rsi_rule example_lib drop_indicators initial_scoring)))
   \<and> (\<exists>sg. generate_signal ''EURUSD=X'' [quiet_row] = Inr sg
          \<and> signal_type sg = Some ''HOLD'')"
proof -
  note t = direction_rules [of example_lib drop_indicators "''EURUSD=X''" "[quiet_row]"
      "projr (generate_signal ''EURUSD=X'' [quiet_row])"]
  from t have a: "score_signal example_lib drop_indicators
      = momentum_rule example_lib drop_indicators (ma_rule drop_indicators
          (bollinger_rule drop_indicators (macd_rule drop_indicators
            (rsi_rule example_lib drop_indicators initial_scoring))))"
    by (rule conjunct1)
  from t have b: "action (momentum_rule example_lib drop_indicators (ma_rule drop_indicators
          (bollinger_rule drop_indicators (macd_rule drop_indicators
            (rsi_rule example_lib drop_indicators initial_scoring)))))
      = action (bollinger_rule drop_indicators (macd_rule drop_indicators
            (rsi_rule example_lib drop_indicators initial_scoring)))"
    by blast
  from t quiet_row_signal(1)
  have "signal_type (projr (generate_signal ''EURUSD=X'' [quiet_row])) = Some
          (if signal_score (ta_score_signal (last [quiet_row])
                (detect_candlestick_patterns [quiet_row])) \<ge> 3
           then ''BUY''
           else if signal_score (ta_score_signal (last [quiet_row])
                (detect_candlestick_patterns [quiet_row])) \<le> - 3
           then ''SELL'' else ''HOLD'')"
    by blast
  then have h: "signal_type (projr (generate_signal ''EURUSD=X'' [quiet_row])) = Some ''HOLD''"
    by (simp add: quiet_row_patterns quiet_row_score)
  have c: "\<exists>sg. generate_signal ''EURUSD=X'' [quiet_row] = Inr sg
          \<and> signal_type sg = Some ''HOLD''"
    using quiet_row_signal(1) h
    by (rule_tac x = "projr (generate_signal ''EURUSD=X'' [quiet_row])" in exI) simp
  from a b c show ?thesis by simp
qed

end
